theory Spec2Isabelle
  imports Main
begin

section \<open>The keyboard hook of \<^verbatim>\<open>src/renderer/src/hooks/useKeyboard.ts\<close>\<close>

text \<open>
  The hook turns key-down, key-up and window-blur events into calls of action handlers.
  Its mutable cells are the two refs \<^verbatim>\<open>altActionRef\<close> and
  \<^verbatim>\<open>nonModifierKeysDownRef\<close>; everything else it reads from its parameters and from
  the event. The model passes the refs explicitly and records what a handler run does to
  the outside (the callbacks it calls, \<^verbatim>\<open>preventDefault\<close>, \<^verbatim>\<open>stopPropagation\<close>)
  in an outcome value.

  Modelling conventions:
  \<^item> \<^verbatim>\<open>KeyboardAction\<close> is a union of non-empty string literals, so
    \<^verbatim>\<open>action && f(action)\<close> is falsy exactly when no binding matched; an optional action
    is an \<open>option\<close>.
  \<^item> The accumulator of the \<^verbatim>\<open>reduce\<close> is the object literal \<^verbatim>\<open>{}\<close>: a map of its own
    properties, read through \<^verbatim>\<open>Object.prototype\<close>. Reading a key that names an inherited
    member, such as \<^verbatim>\<open>constructor\<close>, gives that member, and \<^verbatim>\<open>push\<close> on it is a
    \<^verbatim>\<open>TypeError\<close>: the \<^verbatim>\<open>reduce\<close> returns a fault or the index.
  \<^item> \<^verbatim>\<open>handleKeyEvent\<close> is a closure of the effect that built the index, so it takes
    the index as an argument. Where the \<^verbatim>\<open>reduce\<close> throws, the effect throws before
    \<^verbatim>\<open>addEventListener\<close> and no key event is handled.
  \<^item> The code of a key event is one of the code values of the UI Events
    specification; none of them names a member of \<^verbatim>\<open>Object.prototype\<close>, so
    \<^verbatim>\<open>keyBindingsByPrimaryKey[e.code]\<close> reads an own property or nothing.
  \<^item> Handlers are opaque values of a type \<open>'h\<close>; calling one is logged, its body is the
    application's business.
  \<^item> React runs the effects of a component in the order they are declared, so
    \<^verbatim>\<open>onKeyDownRef.current\<close> and \<^verbatim>\<open>onKeyUpRef.current\<close> hold the callbacks of the
    current render whenever a listener runs: \<^verbatim>\<open>onKeyDown\<close> and \<^verbatim>\<open>onKeyUp\<close> are the
    calls of \<^verbatim>\<open>onKeyDown2\<close> and \<^verbatim>\<open>onKeyUp2\<close>.
  \<^item> The \<^verbatim>\<open>console.log\<close> lines are left out.
\<close>

subsection \<open>Data\<close>

type_synonym KeyboardAction = string

record KeyBinding =
  keys :: string
  action :: KeyboardAction

record NormalizedKeyBinding = KeyBinding +
  primaryKey :: string
  extraNonModifierKeys :: "string set"
  requireCtrl :: bool
  requireShift :: bool
  requireAlt :: bool
  requireMeta :: bool

text \<open>
  The modifier name sets are imported from \<^verbatim>\<open>../util\<close>. The four class sets are a
  parameter of the model.
\<close>

record Modifiers =
  controlModifiers :: "string set"
  shiftModifiers :: "string set"
  altModifiers :: "string set"
  metaModifiers :: "string set"

text \<open>
  Modelled from the spec: \<^verbatim>\<open>allModifiers\<close> of \<^verbatim>\<open>../util\<close> is imported but not
  defined in this file. The classifier puts a key code in one of the classes ctrl, shift,
  alt, meta or calls it a non-modifier, so the set of all modifiers is the union of the
  four classes.
\<close>

definition allModifiers :: "Modifiers \<Rightarrow> string set" where
  "allModifiers m =
     controlModifiers m \<union> shiftModifiers m \<union> altModifiers m \<union> metaModifiers m"

text \<open>
  Modelled from the spec: the names in the four sets of \<^verbatim>\<open>../util\<close>. The left and the
  right variant of a modifier count as the same logical modifier. This instance is used
  for concrete evaluations only; every general statement below is about an arbitrary
  \<open>m\<close>.
\<close>

definition codeModifiers :: Modifiers where
  "codeModifiers =
     \<lparr> controlModifiers = {''ControlLeft'', ''ControlRight''},
       shiftModifiers = {''ShiftLeft'', ''ShiftRight''},
       altModifiers = {''AltLeft'', ''AltRight''},
       metaModifiers = {''MetaLeft'', ''MetaRight''} \<rparr>"

datatype EventTarget = DocumentBody | OtherElement string

record KeyboardEvent =
  code :: string
  ctrlKey :: bool
  shiftKey :: bool
  altKey :: bool
  metaKey :: bool
  target :: EventTarget

datatype EventType = Keydown | Keyup

text \<open>The parameters of the hook; \<^verbatim>\<open>closeExportConfirm\<close> is a call in the outcome.\<close>

record 'h Props =
  keyBindings :: "KeyBinding list"
  keyUpActions :: "KeyboardAction \<rightharpoonup> 'h"
  getKeyboardAction :: "KeyboardAction \<Rightarrow> 'h option"
  exportConfirmOpen :: bool

record Refs =
  altActionRef :: bool
  nonModifierKeysDownRef :: "string set"

datatype 'h Call = CloseExportConfirm | Handler 'h

record 'h Outcome =
  calls :: "'h Call list"
  defaultPrevented :: bool
  propagationStopped :: bool

definition untouched :: "'h Outcome" where
  "untouched = \<lparr> calls = [], defaultPrevented = False, propagationStopped = False \<rparr>"

definition initialRefs :: Refs where
  "initialRefs = \<lparr> altActionRef = False, nonModifierKeysDownRef = {} \<rparr>"

subsection \<open>The binding index\<close>

text \<open>\<^verbatim>\<open>s.split(sep)\<close> for a one-character separator: never the empty array.\<close>

fun split_on :: "char \<Rightarrow> string \<Rightarrow> string list" where
  "split_on sep [] = [[]]"
| "split_on sep (c # cs) =
     (if c = sep then [] # split_on sep cs
      else (case split_on sep cs of
              [] \<Rightarrow> [[c]]
            | t # ts \<Rightarrow> (c # t) # ts))"

text \<open>\<^verbatim>\<open>xs.at(-1)\<close>: the last element, undefined for the empty array.\<close>

definition at_last :: "'a list \<Rightarrow> 'a option" where
  "at_last xs = (if xs = [] then None else Some (last xs))"

text \<open>
  Lines 113 to 133: the entry a binding contributes, \<open>None\<close> where the callback returns
  the accumulator unchanged (lines 115 and 118).
\<close>

definition normalized :: "Modifiers \<Rightarrow> KeyBinding \<Rightarrow> NormalizedKeyBinding option" where
  "normalized m kb =
     (let ks = split_on CHR ''+'' (keys kb);
          nonModifierKeys = filter (\<lambda>key. key \<notin> allModifiers m) ks
      in if length nonModifierKeys = 0 then None
         else
           (case at_last nonModifierKeys of
              None \<Rightarrow> None
            | Some primaryKey' \<Rightarrow>
                Some \<lparr> keys = keys kb, action = action kb,
                  primaryKey = primaryKey',
                  extraNonModifierKeys = set (butlast nonModifierKeys),
                  requireCtrl = list_ex (\<lambda>key. key \<in> controlModifiers m) ks,
                  requireShift = list_ex (\<lambda>key. key \<in> shiftModifiers m) ks,
                  requireAlt = list_ex (\<lambda>key. key \<in> altModifiers m) ks,
                  requireMeta = list_ex (\<lambda>key. key \<in> metaModifiers m) ks \<rparr>))"

text \<open>
  The accumulator \<^verbatim>\<open>{}\<close> inherits from \<^verbatim>\<open>Object.prototype\<close>. These are the names of
  the members it inherits in the engine the application runs on; each is a function or,
  for \<^verbatim>\<open>__proto__\<close>, the prototype object: truthy, and without a \<^verbatim>\<open>push\<close>.
\<close>

definition objectPrototypeKeys :: "string set" where
  "objectPrototypeKeys =
     {''constructor'', ''hasOwnProperty'', ''isPrototypeOf'', ''propertyIsEnumerable'',
      ''toLocaleString'', ''toString'', ''valueOf'', ''__proto__'',
      ''__defineGetter__'', ''__defineSetter__'', ''__lookupGetter__'', ''__lookupSetter__''}"

type_synonym Index = "string \<rightharpoonup> NormalizedKeyBinding list"

text \<open>\<^verbatim>\<open>acc[key]\<close>: the own property if there is one, else the inherited member.\<close>

datatype Property = Undefined | Inherited | Array "NormalizedKeyBinding list"

definition getProperty :: "Index \<Rightarrow> string \<Rightarrow> Property" where
  "getProperty acc key =
     (case acc key of
        Some ns \<Rightarrow> Array ns
      | None \<Rightarrow> if key \<in> objectPrototypeKeys then Inherited else Undefined)"

datatype Fault = TypeError

text \<open>
  Lines 112 to 138: the callback of the \<^verbatim>\<open>reduce\<close>, and the \<^verbatim>\<open>reduce\<close>. Line 135 stores
  the empty array where the read is falsy, that is undefined; line 136 pushes, which
  throws where the value read is an inherited member.
\<close>

definition addKeyBinding :: "Modifiers \<Rightarrow> Index \<Rightarrow> KeyBinding \<Rightarrow> Fault + Index" where
  "addKeyBinding m acc kb =
     (case normalized m kb of
        None \<Rightarrow> Inr acc
      | Some n \<Rightarrow>
          (let acc1 = (if getProperty acc (primaryKey n) = Undefined
                       then acc(primaryKey n \<mapsto> []) else acc)
           in case getProperty acc1 (primaryKey n) of
                Array ns \<Rightarrow> Inr (acc1(primaryKey n \<mapsto> ns @ [n]))
              | Inherited \<Rightarrow> Inl TypeError
              | Undefined \<Rightarrow> Inl TypeError))"

fun reduce :: "(Index \<Rightarrow> KeyBinding \<Rightarrow> Fault + Index) \<Rightarrow> Index \<Rightarrow> KeyBinding list
    \<Rightarrow> Fault + Index" where
  "reduce f acc [] = Inr acc"
| "reduce f acc (kb # kbs) =
     (case f acc kb of
        Inl fault \<Rightarrow> Inl fault
      | Inr acc' \<Rightarrow> reduce f acc' kbs)"

definition keyBindingsByPrimaryKey :: "Modifiers \<Rightarrow> KeyBinding list \<Rightarrow> Fault + Index" where
  "keyBindingsByPrimaryKey m kbs = reduce (addKeyBinding m) Map.empty kbs"

subsection \<open>Matching and dispatch\<close>

text \<open>Lines 179 to 188: the predicate of the \<^verbatim>\<open>find\<close>, and the \<^verbatim>\<open>find\<close>.\<close>

definition chordHolds :: "string set \<Rightarrow> KeyboardEvent \<Rightarrow> NormalizedKeyBinding \<Rightarrow> bool" where
  "chordHolds pressedNonModifiers e kb =
     (if requireCtrl kb \<noteq> ctrlKey e then False
      else if requireShift kb \<noteq> shiftKey e then False
      else if requireAlt kb \<noteq> altKey e then False
      else if requireMeta kb \<noteq> metaKey e then False
      else extraNonModifierKeys kb \<subseteq> pressedNonModifiers)"

text \<open>\<^verbatim>\<open>keyBindingsByPrimaryKey[c] ?? []\<close>\<close>

definition candidates :: "Index \<Rightarrow> string \<Rightarrow> NormalizedKeyBinding list" where
  "candidates index c = (case index c of None \<Rightarrow> [] | Some kbs \<Rightarrow> kbs)"

definition matchingKeyBinding ::
  "Index \<Rightarrow> string set \<Rightarrow> KeyboardEvent \<Rightarrow> NormalizedKeyBinding option" where
  "matchingKeyBinding index pressedNonModifiers e =
     find (chordHolds pressedNonModifiers e) (candidates index (code e))"

text \<open>Lines 36 to 39.\<close>

definition onKeyUp2 ::
  "'h Props \<Rightarrow> 'h Outcome \<Rightarrow> KeyboardAction option \<Rightarrow> 'h Outcome" where
  "onKeyUp2 props out act =
     (case act of
        None \<Rightarrow> out
      | Some a \<Rightarrow>
          (case keyUpActions props a of
             None \<Rightarrow> out
           | Some fn \<Rightarrow> out\<lparr>calls := calls out @ [Handler fn]\<rparr>))"

text \<open>Lines 41 to 88.\<close>

definition onKeyDown2 ::
  "'h Props \<Rightarrow> Refs \<times> 'h Outcome \<Rightarrow> KeyboardEvent \<Rightarrow> KeyboardAction option
     \<Rightarrow> Refs \<times> 'h Outcome" where
  "onKeyDown2 props st e act =
     (let isEscape = (code e = ''Escape'') in
      if exportConfirmOpen props \<and> isEscape then
        (fst st, (snd st)\<lparr>calls := calls (snd st) @ [CloseExportConfirm],
                          defaultPrevented := True, propagationStopped := True\<rparr>)
      else if exportConfirmOpen props \<and> act \<noteq> Some ''export'' then st
      else if target e \<noteq> DocumentBody then st
      else
        (case (case act of None \<Rightarrow> None | Some a \<Rightarrow> getKeyboardAction props a) of
           None \<Rightarrow> st
         | Some matchingFn \<Rightarrow>
             ((if altKey e then (fst st)\<lparr>altActionRef := True\<rparr> else fst st),
              (snd st)\<lparr>calls := calls (snd st) @ [Handler matchingFn],
                        defaultPrevented := True, propagationStopped := True\<rparr>)))"

text \<open>
  Lines 150 to 194, with the index the effect built (the constant
  \<^verbatim>\<open>keyBindingsByPrimaryKey\<close> of the closure) as the argument \<open>index\<close>.
\<close>

definition handleKeyEvent ::
  "Modifiers \<Rightarrow> Index \<Rightarrow> 'h Props \<Rightarrow> Refs \<Rightarrow> KeyboardEvent \<Rightarrow> EventType
     \<Rightarrow> Refs \<times> 'h Outcome" where
  "handleKeyEvent m index props refs e ev =
     (let st1 =
            (if ev = Keyup \<and> altActionRef refs
                \<and> (code e = ''AltLeft'' \<or> code e = ''AltRight'')
             then (refs\<lparr>altActionRef := False\<rparr>, untouched\<lparr>defaultPrevented := True\<rparr>)
             else (refs, untouched));
          isModifier = (code e \<in> allModifiers m);
          st2 =
            (if ev = Keydown \<and> \<not> isModifier
             then ((fst st1)\<lparr>nonModifierKeysDownRef :=
                      insert (code e) (nonModifierKeysDownRef (fst st1))\<rparr>, snd st1)
             else st1)
      in if isModifier then st2
         else
           (let pressedNonModifiers = nonModifierKeysDownRef (fst st2);
                matching = matchingKeyBinding index pressedNonModifiers e;
                st3 =
                  (if ev = Keyup
                   then (fst st2, onKeyUp2 props (snd st2) (map_option action matching))
                   else onKeyDown2 props st2 e (map_option action matching))
            in if ev = Keyup
               then ((fst st3)\<lparr>nonModifierKeysDownRef :=
                        nonModifierKeysDownRef (fst st3) - {code e}\<rparr>, snd st3)
               else st3))"

text \<open>Lines 220 to 222: the listener of the window's \<^verbatim>\<open>blur\<close>.\<close>

definition clearPressedNonModifiers :: "Refs \<Rightarrow> Refs" where
  "clearPressedNonModifiers refs = refs\<lparr>nonModifierKeysDownRef := {}\<rparr>"

text \<open>
  What the host delivers: a key event or a blur of the window, each with the index of the
  listeners that are registered and the parameters of the render that is current when it
  arrives. A run handles them in order.
\<close>

datatype DomEvent = Key EventType KeyboardEvent | WindowBlur

definition deliver :: "Modifiers \<Rightarrow> Refs \<Rightarrow> (Index \<times> 'h Props) \<times> DomEvent \<Rightarrow> Refs" where
  "deliver m refs pe =
     (case snd pe of
        Key ev e \<Rightarrow> fst (handleKeyEvent m (fst (fst pe)) (snd (fst pe)) refs e ev)
      | WindowBlur \<Rightarrow> clearPressedNonModifiers refs)"

definition run ::
  "Modifiers \<Rightarrow> Refs \<Rightarrow> ((Index \<times> 'h Props) \<times> DomEvent) list \<Rightarrow> Refs" where
  "run m refs pes = foldl (deliver m) refs pes"

subsection \<open>The specification's words\<close>

text \<open>
  The non-modifier tokens of a raw binding's combination, in the order they are written,
  and the entry the specification describes for a binding that has one: the last
  non-modifier token is the primary key, the earlier ones are the extra keys, and a
  require flag is set iff some token is in the modifier's name set.
\<close>

definition nonModifierTokens :: "Modifiers \<Rightarrow> KeyBinding \<Rightarrow> string list" where
  "nonModifierTokens m kb =
     filter (\<lambda>t. t \<notin> allModifiers m) (split_on CHR ''+'' (keys kb))"

definition specEntry :: "Modifiers \<Rightarrow> KeyBinding \<Rightarrow> NormalizedKeyBinding" where
  "specEntry m kb =
     \<lparr> keys = keys kb, action = action kb,
       primaryKey = last (nonModifierTokens m kb),
       extraNonModifierKeys = set (butlast (nonModifierTokens m kb)),
       requireCtrl = (\<exists>t \<in> set (split_on CHR ''+'' (keys kb)). t \<in> controlModifiers m),
       requireShift = (\<exists>t \<in> set (split_on CHR ''+'' (keys kb)). t \<in> shiftModifiers m),
       requireAlt = (\<exists>t \<in> set (split_on CHR ''+'' (keys kb)). t \<in> altModifiers m),
       requireMeta = (\<exists>t \<in> set (split_on CHR ''+'' (keys kb)). t \<in> metaModifiers m) \<rparr>"

text \<open>
  The tracker's invariant in the specification's words: the last event of the sequence
  that is a blur or a key event for the code \<open>c\<close> is a key-down.
\<close>

definition concerns :: "string \<Rightarrow> DomEvent \<Rightarrow> bool" where
  "concerns c d = (case d of Key ev e \<Rightarrow> code e = c | WindowBlur \<Rightarrow> True)"

definition isKeydown :: "DomEvent \<Rightarrow> bool" where
  "isKeydown d = (case d of Key ev e \<Rightarrow> ev = Keydown | WindowBlur \<Rightarrow> False)"

definition lastWasDown :: "string \<Rightarrow> DomEvent list \<Rightarrow> bool" where
  "lastWasDown c ds =
     (case rev (filter (concerns c) ds) of [] \<Rightarrow> False | d # _ \<Rightarrow> isKeydown d)"

text \<open>
  The gate of section 4.5 as one condition: the handler a key-down with the matched
  action \<open>act\<close> triggers, if any. A handler runs when a binding matched, the dialog is
  closed or the action is the export, the target is the document body, and the registry
  knows the action.
\<close>

definition triggered :: "'h Props \<Rightarrow> KeyboardEvent \<Rightarrow> KeyboardAction option \<Rightarrow> 'h option" where
  "triggered props e act =
     (case act of
        None \<Rightarrow> None
      | Some a \<Rightarrow>
          if (exportConfirmOpen props \<and> a \<noteq> ''export'') \<or> target e \<noteq> DocumentBody then None
          else getKeyboardAction props a)"

section \<open>Properties\<close>

subsection \<open>Splitting and the index\<close>

lemma split_on_not_Nil: "split_on sep s \<noteq> []"
  by (induction s) (auto split: list.splits)

lemma split_on_no_sep: "sep \<notin> set s \<Longrightarrow> split_on sep s = [s]"
  by (induction s) auto

lemma split_on_append:
  "sep \<notin> set s \<Longrightarrow> split_on sep (s @ sep # t) = s # split_on sep t"
  by (induction s) auto

lemma addKeyBinding_cases:
  "addKeyBinding m acc kb =
     (case normalized m kb of
        None \<Rightarrow> Inr acc
      | Some n \<Rightarrow>
          if acc (primaryKey n) = None \<and> primaryKey n \<in> objectPrototypeKeys
          then Inl TypeError
          else Inr (acc(primaryKey n \<mapsto> candidates acc (primaryKey n) @ [n])))"
  by (auto simp: addKeyBinding_def getProperty_def candidates_def Let_def
      split: option.splits)

lemma candidates_addKeyBinding:
  "addKeyBinding m acc kb = Inr acc' \<Longrightarrow>
   candidates acc' c =
     candidates acc c @ filter (\<lambda>n. primaryKey n = c) (List.map_filter (normalized m) [kb])"
  by (cases "normalized m kb")
    (auto simp: addKeyBinding_cases candidates_def split: if_splits)

lemma candidates_reduce:
  "reduce (addKeyBinding m) acc kbs = Inr index \<Longrightarrow>
   candidates index c =
     candidates acc c @ filter (\<lambda>n. primaryKey n = c) (List.map_filter (normalized m) kbs)"
proof (induction kbs arbitrary: acc)
  case Nil
  then show ?case by simp
next
  case (Cons kb kbs)
  from Cons.prems obtain acc' where step: "addKeyBinding m acc kb = Inr acc'"
    and rest: "reduce (addKeyBinding m) acc' kbs = Inr index"
    by (cases "addKeyBinding m acc kb") simp_all
  have "candidates index c = candidates acc' c
          @ filter (\<lambda>n. primaryKey n = c) (List.map_filter (normalized m) kbs)"
    using rest by (rule Cons.IH)
  also have "\<dots> = candidates acc c
          @ filter (\<lambda>n. primaryKey n = c) (List.map_filter (normalized m) (kb # kbs))"
    using candidates_addKeyBinding [OF step, of c]
    by (cases "normalized m kb") simp_all
  finally show ?case .
qed

lemma addKeyBinding_None:
  "addKeyBinding m acc kb = Inr acc' \<Longrightarrow>
   acc' c = None \<longleftrightarrow>
     acc c = None \<and> filter (\<lambda>n. primaryKey n = c) (List.map_filter (normalized m) [kb]) = []"
  by (cases "normalized m kb") (auto simp: addKeyBinding_cases split: if_splits)

lemma reduce_None:
  "reduce (addKeyBinding m) acc kbs = Inr index \<Longrightarrow>
   index c = None \<longleftrightarrow>
     acc c = None \<and> filter (\<lambda>n. primaryKey n = c) (List.map_filter (normalized m) kbs) = []"
proof (induction kbs arbitrary: acc)
  case Nil
  then show ?case by simp
next
  case (Cons kb kbs)
  from Cons.prems obtain acc' where step: "addKeyBinding m acc kb = Inr acc'"
    and rest: "reduce (addKeyBinding m) acc' kbs = Inr index"
    by (cases "addKeyBinding m acc kb") simp_all
  have "index c = None \<longleftrightarrow>
          acc' c = None
          \<and> filter (\<lambda>n. primaryKey n = c) (List.map_filter (normalized m) kbs) = []"
    using rest by (rule Cons.IH)
  also have "\<dots> \<longleftrightarrow> acc c = None
      \<and> filter (\<lambda>n. primaryKey n = c) (List.map_filter (normalized m) (kb # kbs)) = []"
    using addKeyBinding_None [OF step, of c]
    by (cases "normalized m kb") auto
  finally show ?case .
qed

text \<open>The \<^verbatim>\<open>reduce\<close> throws iff some entry's primary key is read from the prototype.\<close>

lemma reduce_Inl_iff:
  "(\<exists>fault. reduce (addKeyBinding m) acc kbs = Inl fault) \<longleftrightarrow>
     (\<exists>n \<in> set (List.map_filter (normalized m) kbs).
        primaryKey n \<in> objectPrototypeKeys \<and> acc (primaryKey n) = None)"
proof (induction kbs arbitrary: acc)
  case Nil
  show ?case by simp
next
  case (Cons kb kbs)
  show ?case
  proof (cases "normalized m kb")
    case None
    then have "addKeyBinding m acc kb = Inr acc"
      by (simp add: addKeyBinding_cases)
    with None show ?thesis by (simp add: Cons.IH)
  next
    case (Some n)
    show ?thesis
    proof (cases "acc (primaryKey n) = None \<and> primaryKey n \<in> objectPrototypeKeys")
      case True
      with Some have "addKeyBinding m acc kb = Inl TypeError"
        by (simp add: addKeyBinding_cases)
      with Some True show ?thesis by auto
    next
      case False
      with Some have "addKeyBinding m acc kb =
          Inr (acc(primaryKey n \<mapsto> candidates acc (primaryKey n) @ [n]))"
        by (simp add: addKeyBinding_cases)
      with Some False show ?thesis
        by (simp add: Cons.IH) (metis option.distinct(1))
    qed
  qed
qed

lemma index_built:
  "(\<exists>index. keyBindingsByPrimaryKey m kbs = Inr index) \<longleftrightarrow>
     (\<forall>n \<in> set (List.map_filter (normalized m) kbs). primaryKey n \<notin> objectPrototypeKeys)"
proof -
  have "(\<exists>index. keyBindingsByPrimaryKey m kbs = Inr index) \<longleftrightarrow>
          \<not> (\<exists>fault. keyBindingsByPrimaryKey m kbs = Inl fault)"
    by (cases "keyBindingsByPrimaryKey m kbs") simp_all
  then show ?thesis
    by (simp add: keyBindingsByPrimaryKey_def reduce_Inl_iff)
qed

lemma candidates_empty: "candidates Map.empty c = []"
  by (simp add: candidates_def)

lemma candidates_index:
  "keyBindingsByPrimaryKey m kbs = Inr index \<Longrightarrow>
   candidates index c =
     filter (\<lambda>n. primaryKey n = c) (List.map_filter (normalized m) kbs)"
  by (simp add: keyBindingsByPrimaryKey_def candidates_reduce candidates_empty)

lemma index_None:
  "keyBindingsByPrimaryKey m kbs = Inr index \<Longrightarrow>
   index c = None \<longleftrightarrow>
     filter (\<lambda>n. primaryKey n = c) (List.map_filter (normalized m) kbs) = []"
  by (simp add: keyBindingsByPrimaryKey_def reduce_None)

lemma find_filter: "find P (filter Q xs) = find (\<lambda>x. Q x \<and> P x) xs"
  by (induction xs) auto

lemma chordHolds_iff:
  "chordHolds pressed e kb \<longleftrightarrow>
     requireCtrl kb = ctrlKey e \<and> requireShift kb = shiftKey e
     \<and> requireAlt kb = altKey e \<and> requireMeta kb = metaKey e
     \<and> extraNonModifierKeys kb \<subseteq> pressed"
  by (auto simp: chordHolds_def)

lemma normalized_single:
  "CHR ''+'' \<notin> set a \<Longrightarrow> a \<notin> allModifiers m \<Longrightarrow>
   normalized m \<lparr>keys = a, action = x\<rparr> =
     Some \<lparr>keys = a, action = x, primaryKey = a, extraNonModifierKeys = {},
       requireCtrl = False, requireShift = False, requireAlt = False, requireMeta = False\<rparr>"
  by (simp add: normalized_def at_last_def split_on_no_sep allModifiers_def)

lemma normalized_pair:
  "CHR ''+'' \<notin> set s \<Longrightarrow> CHR ''+'' \<notin> set a \<Longrightarrow> a \<notin> allModifiers m \<Longrightarrow>
   normalized m \<lparr>keys = s @ CHR ''+'' # a, action = x\<rparr> =
     Some \<lparr>keys = s @ CHR ''+'' # a, action = x, primaryKey = a,
       extraNonModifierKeys = (if s \<in> allModifiers m then {} else {s}),
       requireCtrl = (s \<in> controlModifiers m), requireShift = (s \<in> shiftModifiers m),
       requireAlt = (s \<in> altModifiers m), requireMeta = (s \<in> metaModifiers m)\<rparr>"
  by (simp add: normalized_def at_last_def split_on_no_sep split_on_append allModifiers_def)

lemma matchingKeyBinding_index:
  "keyBindingsByPrimaryKey m kbs = Inr index \<Longrightarrow>
   matchingKeyBinding index pressed e =
     find (\<lambda>n. primaryKey n = code e \<and> chordHolds pressed e n)
       (List.map_filter (normalized m) kbs)"
  by (simp add: matchingKeyBinding_def candidates_index find_filter)

lemma normalized_specEntry:
  "normalized m kb = (if nonModifierTokens m kb = [] then None else Some (specEntry m kb))"
  by (simp add: normalized_def at_last_def specEntry_def nonModifierTokens_def Let_def list_ex_iff)

lemma primaryKey_specEntry: "primaryKey (specEntry m kb) = last (nonModifierTokens m kb)"
  by (simp add: specEntry_def)

lemma entries_of_key:
  "filter (\<lambda>n. primaryKey n = c) (List.map_filter (normalized m) kbs) =
     map (specEntry m)
       (filter (\<lambda>kb. nonModifierTokens m kb \<noteq> [] \<and> last (nonModifierTokens m kb) = c) kbs)"
  by (induction kbs) (simp_all add: normalized_specEntry primaryKey_specEntry)


lemma index_holds_spec_entries:
  "keyBindingsByPrimaryKey m kbs = Inr index \<Longrightarrow>
   candidates index c =
     map (specEntry m)
       (filter (\<lambda>kb. nonModifierTokens m kb \<noteq> [] \<and> last (nonModifierTokens m kb) = c) kbs)"
  by (simp add: candidates_index entries_of_key)


subsection \<open>One event\<close>

lemma handleKeyEvent_modifier:
  "code e \<in> allModifiers m \<Longrightarrow>
   handleKeyEvent m index props refs e ev =
     (if ev = Keyup \<and> altActionRef refs \<and> (code e = ''AltLeft'' \<or> code e = ''AltRight'')
      then (refs\<lparr>altActionRef := False\<rparr>, untouched\<lparr>defaultPrevented := True\<rparr>)
      else (refs, untouched))"
  by (simp add: handleKeyEvent_def Let_def)

lemma handleKeyEvent_keydown:
  "code e \<notin> allModifiers m \<Longrightarrow>
   handleKeyEvent m index props refs e Keydown =
     onKeyDown2 props
       (refs\<lparr>nonModifierKeysDownRef := insert (code e) (nonModifierKeysDownRef refs)\<rparr>, untouched)
       e
       (map_option action
          (matchingKeyBinding index
             (insert (code e) (nonModifierKeysDownRef refs)) e))"
  by (simp add: handleKeyEvent_def Let_def)

lemma handleKeyEvent_keyup:
  "code e \<notin> allModifiers m \<Longrightarrow>
   handleKeyEvent m index props refs e Keyup =
     (let suppress = (altActionRef refs \<and> (code e = ''AltLeft'' \<or> code e = ''AltRight'')) in
      (refs\<lparr>altActionRef := altActionRef refs \<and> \<not> suppress,
            nonModifierKeysDownRef := nonModifierKeysDownRef refs - {code e}\<rparr>,
       onKeyUp2 props (untouched\<lparr>defaultPrevented := suppress\<rparr>)
         (map_option action
            (matchingKeyBinding index
               (nonModifierKeysDownRef refs) e))))"
  by (auto simp: handleKeyEvent_def Let_def untouched_def)

lemma onKeyUp2_calls:
  "onKeyUp2 props out act =
     out\<lparr>calls := calls out @ (case act of None \<Rightarrow> [] | Some a \<Rightarrow>
        (case keyUpActions props a of None \<Rightarrow> [] | Some fn \<Rightarrow> [Handler fn]))\<rparr>"
  by (simp add: onKeyUp2_def split: option.splits)

lemma onKeyDown2_escape:
  "exportConfirmOpen props \<Longrightarrow> code e = ''Escape'' \<Longrightarrow>
   onKeyDown2 props (refs, untouched) e act =
     (refs, \<lparr>calls = [CloseExportConfirm], defaultPrevented = True, propagationStopped = True\<rparr>)"
  by (simp add: onKeyDown2_def untouched_def)

lemma onKeyDown2_suppressed:
  "exportConfirmOpen props \<Longrightarrow> code e \<noteq> ''Escape'' \<Longrightarrow> act \<noteq> Some ''export'' \<Longrightarrow>
   onKeyDown2 props st e act = st"
  by (simp add: onKeyDown2_def)

lemma onKeyDown2_other_target:
  "\<not> (exportConfirmOpen props \<and> code e = ''Escape'') \<Longrightarrow> target e \<noteq> DocumentBody \<Longrightarrow>
   onKeyDown2 props st e act = st"
  by (auto simp: onKeyDown2_def)

lemma onKeyDown2_pressed:
  "nonModifierKeysDownRef (fst (onKeyDown2 props st e act)) = nonModifierKeysDownRef (fst st)"
  by (simp add: onKeyDown2_def Let_def split: option.splits)

lemma onKeyDown2_cases:
  "onKeyDown2 props (refs, untouched) e act =
     (if exportConfirmOpen props \<and> code e = ''Escape'' then
        (refs, \<lparr>calls = [CloseExportConfirm], defaultPrevented = True, propagationStopped = True\<rparr>)
      else
        (case triggered props e act of
           None \<Rightarrow> (refs, untouched)
         | Some h \<Rightarrow>
             (refs\<lparr>altActionRef := altActionRef refs \<or> altKey e\<rparr>,
              \<lparr>calls = [Handler h], defaultPrevented = True, propagationStopped = True\<rparr>)))"
  by (auto simp: onKeyDown2_def triggered_def untouched_def split: option.splits)

lemma handleKeyEvent_keydown_cases:
  "code e \<notin> allModifiers m \<Longrightarrow>
   handleKeyEvent m index props refs e Keydown =
     (if exportConfirmOpen props \<and> code e = ''Escape'' then
        (refs\<lparr>nonModifierKeysDownRef := insert (code e) (nonModifierKeysDownRef refs)\<rparr>,
         \<lparr>calls = [CloseExportConfirm], defaultPrevented = True, propagationStopped = True\<rparr>)
      else
        (case triggered props e
                (map_option action
                   (matchingKeyBinding index
                      (insert (code e) (nonModifierKeysDownRef refs)) e)) of
           None \<Rightarrow>
             (refs\<lparr>nonModifierKeysDownRef := insert (code e) (nonModifierKeysDownRef refs)\<rparr>,
              untouched)
         | Some h \<Rightarrow>
             (refs\<lparr>nonModifierKeysDownRef := insert (code e) (nonModifierKeysDownRef refs),
                   altActionRef := altActionRef refs \<or> altKey e\<rparr>,
              \<lparr>calls = [Handler h], defaultPrevented = True, propagationStopped = True\<rparr>)))"
  by (simp add: handleKeyEvent_keydown onKeyDown2_cases split: option.splits)

lemma triggered_Some_iff:
  "triggered props e (map_option action mk) = Some h \<longleftrightarrow>
     (\<exists>kb. mk = Some kb \<and> (exportConfirmOpen props \<longrightarrow> action kb = ''export'')
           \<and> target e = DocumentBody \<and> getKeyboardAction props (action kb) = Some h)"
  by (cases mk) (auto simp: triggered_def)

lemma find_Some_holds: "find P xs = Some x \<Longrightarrow> P x \<and> x \<in> set xs"
  by (induction xs) (auto split: if_splits)

lemma matchingKeyBinding_Some:
  "matchingKeyBinding index pressed e = Some kb \<Longrightarrow>
     kb \<in> set (candidates index (code e)) \<and> chordHolds pressed e kb"
  by (auto simp: matchingKeyBinding_def dest: find_Some_holds)

lemma keyup_calls:
  "calls (snd (handleKeyEvent m index props refs e Keyup)) =
     (if code e \<in> allModifiers m then []
      else (case matchingKeyBinding index
                  (nonModifierKeysDownRef refs) e of
              None \<Rightarrow> []
            | Some kb \<Rightarrow>
                (case keyUpActions props (action kb) of
                   None \<Rightarrow> []
                 | Some fn \<Rightarrow> [Handler fn])))"
  by (auto simp: handleKeyEvent_modifier handleKeyEvent_keyup onKeyUp2_calls untouched_def
      Let_def split: option.splits)

lemma keydown_altActionRef:
  "altActionRef (fst (handleKeyEvent m index props refs e Keydown)) =
     (altActionRef refs
      \<or> (altKey e \<and> (\<exists>h. Handler h \<in> set (calls (snd (handleKeyEvent m index props refs e Keydown))))))"
proof (cases "code e \<in> allModifiers m")
  case True
  then show ?thesis by (simp add: handleKeyEvent_modifier untouched_def)
next
  case False
  then show ?thesis
    by (cases "triggered props e
                (map_option action
                   (matchingKeyBinding index
                      (insert (code e) (nonModifierKeysDownRef refs)) e))")
      (auto simp: handleKeyEvent_keydown_cases untouched_def)
qed

lemma keyup_altActionRef:
  "altActionRef (fst (handleKeyEvent m index props refs e Keyup)) =
     (altActionRef refs \<and> code e \<noteq> ''AltLeft'' \<and> code e \<noteq> ''AltRight'')"
  by (cases "code e \<in> allModifiers m")
    (auto simp: handleKeyEvent_modifier handleKeyEvent_keyup Let_def)

lemma keyup_defaultPrevented:
  "defaultPrevented (snd (handleKeyEvent m index props refs e Keyup)) =
     (altActionRef refs \<and> (code e = ''AltLeft'' \<or> code e = ''AltRight''))"
  by (cases "code e \<in> allModifiers m")
    (auto simp: handleKeyEvent_modifier handleKeyEvent_keyup Let_def onKeyUp2_calls untouched_def)

lemma keydown_pressed:
  "nonModifierKeysDownRef (fst (handleKeyEvent m index props refs e Keydown)) =
     (if code e \<in> allModifiers m then nonModifierKeysDownRef refs
      else insert (code e) (nonModifierKeysDownRef refs))"
  by (simp add: handleKeyEvent_modifier handleKeyEvent_keydown onKeyDown2_pressed)

lemma keyup_pressed:
  "nonModifierKeysDownRef (fst (handleKeyEvent m index props refs e Keyup)) =
     (if code e \<in> allModifiers m then nonModifierKeysDownRef refs
      else nonModifierKeysDownRef refs - {code e})"
  by (simp add: handleKeyEvent_modifier handleKeyEvent_keyup Let_def)

subsection \<open>Sequences of events\<close>

lemma deliver_pressed:
  "nonModifierKeysDownRef (deliver m refs (l, d)) =
     (case d of
        WindowBlur \<Rightarrow> {}
      | Key ev e \<Rightarrow>
          if code e \<in> allModifiers m then nonModifierKeysDownRef refs
          else if ev = Keydown then insert (code e) (nonModifierKeysDownRef refs)
          else nonModifierKeysDownRef refs - {code e})"
  by (cases d; cases "case d of Key ev e \<Rightarrow> ev | WindowBlur \<Rightarrow> Keyup")
    (simp_all add: deliver_def keydown_pressed keyup_pressed clearPressedNonModifiers_def)

lemma run_snoc: "run m refs (pes @ [pe]) = deliver m (run m refs pes) pe"
  by (simp add: run_def)

lemma lastWasDown_snoc:
  "lastWasDown c (ds @ [d]) = (if concerns c d then isKeydown d else lastWasDown c ds)"
  by (simp add: lastWasDown_def)

lemma pressed_run:
  "c \<in> nonModifierKeysDownRef (run m initialRefs pes) \<longleftrightarrow>
     c \<notin> allModifiers m \<and> lastWasDown c (map snd pes)"
proof (induction pes rule: rev_induct)
  case Nil
  show ?case by (simp add: run_def initialRefs_def lastWasDown_def)
next
  case (snoc pe pes)
  obtain l d where pe: "pe = (l, d)" by (cases pe)
  show ?case
  proof (cases d)
    case WindowBlur
    then show ?thesis
      by (simp add: pe run_snoc deliver_pressed lastWasDown_snoc concerns_def isKeydown_def)
  next
    case (Key ev e)
    then show ?thesis
      using snoc.IH
      by (cases ev)
        (auto simp: pe run_snoc deliver_pressed lastWasDown_snoc concerns_def isKeydown_def)
  qed
qed


lemma deliver_adds_no_modifier:
  "(nonModifierKeysDownRef (deliver m refs pe) - nonModifierKeysDownRef refs) \<inter> allModifiers m
     = {}"
  by (cases pe) (auto simp: deliver_pressed split: DomEvent.splits if_splits)

lemma run_blur_last:
  "nonModifierKeysDownRef (run m refs (pes @ [(l, WindowBlur)])) = {}"
  by (simp add: run_snoc deliver_pressed)

lemma keydown_without_match:
  "matchingKeyBinding index
     (insert (code e) (nonModifierKeysDownRef refs)) e = None \<Longrightarrow>
   Handler h \<notin> set (calls (snd (handleKeyEvent m index props refs e Keydown)))"
  by (cases "code e \<in> allModifiers m")
    (auto simp: handleKeyEvent_modifier handleKeyEvent_keydown_cases untouched_def triggered_def)

subsection \<open>Claims\<close>

text \<open>
  C1. For a key event handled with the index built from the configured list, the binding
  selected for dispatch is the first binding, in the order of the list, whose primary key
  is the event's code, whose four require flags equal the event's ctrl, shift, alt and
  meta flags, and whose extra keys are all in the pressed-key set. With a binding \<open>a\<close> for
  \<open>x\<close> and a binding shift+\<open>a\<close> for \<open>y\<close>, the index is built and a press of \<open>a\<close> with only
  shift held selects \<open>y\<close>; a binding \<open>b\<close>+\<open>a\<close> is selected by a press of \<open>a\<close> exactly while
  \<open>b\<close> is in the pressed-key set.
\<close>

theorem first_matching_binding_is_selected:
  "(keyBindingsByPrimaryKey m kbs = Inr index \<longrightarrow>
      matchingKeyBinding index pressed e =
        find (\<lambda>n. primaryKey n = code e
                  \<and> requireCtrl n = ctrlKey e \<and> requireShift n = shiftKey e
                  \<and> requireAlt n = altKey e \<and> requireMeta n = metaKey e
                  \<and> extraNonModifierKeys n \<subseteq> pressed)
          (List.map_filter (normalized m) kbs))
   \<and> (sh \<in> shiftModifiers m \<and> sh \<notin> controlModifiers m \<and> sh \<notin> altModifiers m
        \<and> sh \<notin> metaModifiers m \<and> a \<notin> allModifiers m \<and> a \<notin> objectPrototypeKeys
        \<and> CHR ''+'' \<notin> set sh \<and> CHR ''+'' \<notin> set a
        \<and> code e = a \<and> shiftKey e \<and> \<not> ctrlKey e \<and> \<not> altKey e \<and> \<not> metaKey e
      \<longrightarrow> (\<exists>built.
             keyBindingsByPrimaryKey m
               [\<lparr>keys = a, action = x\<rparr>, \<lparr>keys = sh @ ''+'' @ a, action = y\<rparr>] = Inr built
             \<and> map_option action (matchingKeyBinding built pressed e) = Some y))
   \<and> (a \<notin> allModifiers m \<and> b \<notin> allModifiers m \<and> a \<notin> objectPrototypeKeys
        \<and> CHR ''+'' \<notin> set a \<and> CHR ''+'' \<notin> set b
        \<and> code e = a \<and> \<not> shiftKey e \<and> \<not> ctrlKey e \<and> \<not> altKey e \<and> \<not> metaKey e
      \<longrightarrow> (\<exists>built.
             keyBindingsByPrimaryKey m [\<lparr>keys = b @ ''+'' @ a, action = z\<rparr>] = Inr built
             \<and> map_option action (matchingKeyBinding built pressed e) =
                 (if b \<in> pressed then Some z else None)))"
proof (intro conjI impI)
  assume "keyBindingsByPrimaryKey m kbs = Inr index"
  then show "matchingKeyBinding index pressed e =
        find (\<lambda>n. primaryKey n = code e
                  \<and> requireCtrl n = ctrlKey e \<and> requireShift n = shiftKey e
                  \<and> requireAlt n = altKey e \<and> requireMeta n = metaKey e
                  \<and> extraNonModifierKeys n \<subseteq> pressed)
          (List.map_filter (normalized m) kbs)"
    by (simp add: matchingKeyBinding_index chordHolds_iff)
next
  assume a: "sh \<in> shiftModifiers m \<and> sh \<notin> controlModifiers m \<and> sh \<notin> altModifiers m
        \<and> sh \<notin> metaModifiers m \<and> a \<notin> allModifiers m \<and> a \<notin> objectPrototypeKeys
        \<and> CHR ''+'' \<notin> set sh \<and> CHR ''+'' \<notin> set a
        \<and> code e = a \<and> shiftKey e \<and> \<not> ctrlKey e \<and> \<not> altKey e \<and> \<not> metaKey e"
  let ?kbs = "[\<lparr>keys = a, action = x\<rparr>, \<lparr>keys = sh @ CHR ''+'' # a, action = y\<rparr>]"
  from a have "\<forall>n \<in> set (List.map_filter (normalized m) ?kbs).
      primaryKey n \<notin> objectPrototypeKeys"
    by (simp add: normalized_single normalized_pair)
  then obtain built where built: "keyBindingsByPrimaryKey m ?kbs = Inr built"
    using index_built [of m ?kbs] by blast
  from a have "map_option action (matchingKeyBinding built pressed e) = Some y"
    by (simp add: matchingKeyBinding_index [OF built] chordHolds_iff normalized_single
        normalized_pair allModifiers_def)
  with built show "\<exists>built.
             keyBindingsByPrimaryKey m
               [\<lparr>keys = a, action = x\<rparr>, \<lparr>keys = sh @ ''+'' @ a, action = y\<rparr>] = Inr built
             \<and> map_option action (matchingKeyBinding built pressed e) = Some y"
    by auto
next
  assume a: "a \<notin> allModifiers m \<and> b \<notin> allModifiers m \<and> a \<notin> objectPrototypeKeys
        \<and> CHR ''+'' \<notin> set a \<and> CHR ''+'' \<notin> set b
        \<and> code e = a \<and> \<not> shiftKey e \<and> \<not> ctrlKey e \<and> \<not> altKey e \<and> \<not> metaKey e"
  let ?kbs = "[\<lparr>keys = b @ CHR ''+'' # a, action = z\<rparr>]"
  from a have "\<forall>n \<in> set (List.map_filter (normalized m) ?kbs).
      primaryKey n \<notin> objectPrototypeKeys"
    by (simp add: normalized_pair)
  then obtain built where built: "keyBindingsByPrimaryKey m ?kbs = Inr built"
    using index_built [of m ?kbs] by blast
  from a have "map_option action (matchingKeyBinding built pressed e) =
                 (if b \<in> pressed then Some z else None)"
    by (simp add: matchingKeyBinding_index [OF built] chordHolds_iff normalized_pair
        allModifiers_def)
  with built show "\<exists>built.
             keyBindingsByPrimaryKey m [\<lparr>keys = b @ ''+'' @ a, action = z\<rparr>] = Inr built
             \<and> map_option action (matchingKeyBinding built pressed e) =
                 (if b \<in> pressed then Some z else None)"
    by auto
qed

text \<open>C1 at the code's modifier names.\<close>

theorem first_matching_binding_is_selected_witness:
  "(\<exists>built.
      keyBindingsByPrimaryKey codeModifiers
        [\<lparr>keys = ''KeyA'', action = ''actionX''\<rparr>,
         \<lparr>keys = ''ShiftLeft+KeyA'', action = ''actionY''\<rparr>] = Inr built
      \<and> map_option action
          (matchingKeyBinding built {''KeyA''}
             \<lparr>code = ''KeyA'', ctrlKey = False, shiftKey = True, altKey = False,
               metaKey = False, target = DocumentBody\<rparr>) = Some ''actionY'')
   \<and> (\<exists>built.
      keyBindingsByPrimaryKey codeModifiers [\<lparr>keys = ''KeyB+KeyA'', action = ''actionZ''\<rparr>]
        = Inr built
      \<and> map_option action
          (matchingKeyBinding built {''KeyA'', ''KeyB''}
             \<lparr>code = ''KeyA'', ctrlKey = False, shiftKey = False, altKey = False,
               metaKey = False, target = DocumentBody\<rparr>) = Some ''actionZ'')
   \<and> (\<exists>built.
      keyBindingsByPrimaryKey codeModifiers [\<lparr>keys = ''KeyB+KeyA'', action = ''actionZ''\<rparr>]
        = Inr built
      \<and> map_option action
          (matchingKeyBinding built {''KeyA''}
             \<lparr>code = ''KeyA'', ctrlKey = False, shiftKey = False, altKey = False,
               metaKey = False, target = DocumentBody\<rparr>) = None)"
  using
    first_matching_binding_is_selected [where m = codeModifiers and sh = "''ShiftLeft''"
      and a = "''KeyA''" and b = "''KeyB''" and x = "''actionX''" and y = "''actionY''"
      and z = "''actionZ''" and pressed = "{''KeyA''}" and kbs = "[]" and index = Map.empty
      and e = "\<lparr>code = ''KeyA'', ctrlKey = False, shiftKey = True, altKey = False,
          metaKey = False, target = DocumentBody\<rparr>"]
    first_matching_binding_is_selected [where m = codeModifiers and sh = "''ShiftLeft''"
      and a = "''KeyA''" and b = "''KeyB''" and x = "''actionX''" and y = "''actionY''"
      and z = "''actionZ''" and pressed = "{''KeyA'', ''KeyB''}" and kbs = "[]"
      and index = Map.empty
      and e = "\<lparr>code = ''KeyA'', ctrlKey = False, shiftKey = False, altKey = False,
          metaKey = False, target = DocumentBody\<rparr>"]
    first_matching_binding_is_selected [where m = codeModifiers and sh = "''ShiftLeft''"
      and a = "''KeyA''" and b = "''KeyB''" and x = "''actionX''" and y = "''actionY''"
      and z = "''actionZ''" and pressed = "{''KeyA''}" and kbs = "[]" and index = Map.empty
      and e = "\<lparr>code = ''KeyA'', ctrlKey = False, shiftKey = False, altKey = False,
          metaKey = False, target = DocumentBody\<rparr>"]
  by (simp add: codeModifiers_def allModifiers_def objectPrototypeKeys_def)

text \<open>
  C2 at the binding \<^verbatim>\<open>constructor\<close>. It has one non-modifier token and its entry is the
  one the claim describes, but the accumulator reads \<^verbatim>\<open>Object\<close> under that key, line 135
  stores nothing and the \<^verbatim>\<open>push\<close> of line 136 throws: no index is built, also for the
  other bindings of the list.
\<close>

theorem constructor_binding_throws:
  "normalized codeModifiers \<lparr>keys = ''constructor'', action = ''export''\<rparr> =
     Some \<lparr>keys = ''constructor'', action = ''export'', primaryKey = ''constructor'',
       extraNonModifierKeys = {}, requireCtrl = False, requireShift = False,
       requireAlt = False, requireMeta = False\<rparr>
   \<and> keyBindingsByPrimaryKey codeModifiers [\<lparr>keys = ''constructor'', action = ''export''\<rparr>]
       = Inl TypeError
   \<and> keyBindingsByPrimaryKey codeModifiers
       [\<lparr>keys = ''KeyA'', action = ''play''\<rparr>, \<lparr>keys = ''constructor'', action = ''export''\<rparr>]
       = Inl TypeError"
  by (simp add: keyBindingsByPrimaryKey_def addKeyBinding_def getProperty_def normalized_def
      at_last_def codeModifiers_def allModifiers_def objectPrototypeKeys_def)




text \<open>
  C3. While the confirmation dialog is open, a key-down of Escape closes the dialog and
  consumes the event (default prevented, propagation stopped), whatever the bindings, the
  matched action and the target are; for any other key-down nothing happens (no handler,
  event not consumed) unless the matched action is the export.
\<close>

theorem dialog_gate:
  assumes "exportConfirmOpen props"
  shows
   "(code e = ''Escape'' \<longrightarrow>
       onKeyDown2 props (refs, untouched) e act =
         (refs, \<lparr>calls = [CloseExportConfirm], defaultPrevented = True,
                  propagationStopped = True\<rparr>))
    \<and> (code e = ''Escape'' \<and> ''Escape'' \<notin> allModifiers m \<longrightarrow>
         snd (handleKeyEvent m index props refs e Keydown) =
           \<lparr>calls = [CloseExportConfirm], defaultPrevented = True, propagationStopped = True\<rparr>)
    \<and> (code e \<noteq> ''Escape'' \<and> act \<noteq> Some ''export'' \<longrightarrow>
         onKeyDown2 props (refs, untouched) e act = (refs, untouched))
    \<and> (code e \<noteq> ''Escape''
         \<and> map_option action
             (matchingKeyBinding index
                (insert (code e) (nonModifierKeysDownRef refs)) e) \<noteq> Some ''export'' \<longrightarrow>
         snd (handleKeyEvent m index props refs e Keydown) = untouched)"
proof (intro conjI impI)
  assume "code e = ''Escape''"
  with assms show "onKeyDown2 props (refs, untouched) e act =
         (refs, \<lparr>calls = [CloseExportConfirm], defaultPrevented = True,
                  propagationStopped = True\<rparr>)"
    by (rule onKeyDown2_escape)
next
  assume "code e = ''Escape'' \<and> ''Escape'' \<notin> allModifiers m"
  with assms show "snd (handleKeyEvent m index props refs e Keydown) =
           \<lparr>calls = [CloseExportConfirm], defaultPrevented = True, propagationStopped = True\<rparr>"
    by (simp add: handleKeyEvent_keydown onKeyDown2_escape)
next
  assume "code e \<noteq> ''Escape'' \<and> act \<noteq> Some ''export''"
  with assms show "onKeyDown2 props (refs, untouched) e act = (refs, untouched)"
    by (simp add: onKeyDown2_suppressed)
next
  assume h: "code e \<noteq> ''Escape''
         \<and> map_option action
             (matchingKeyBinding index
                (insert (code e) (nonModifierKeysDownRef refs)) e) \<noteq> Some ''export''"
  show "snd (handleKeyEvent m index props refs e Keydown) = untouched"
  proof (cases "code e \<in> allModifiers m")
    case True
    then show ?thesis by (simp add: handleKeyEvent_modifier)
  next
    case False
    with assms h show ?thesis
      by (simp add: handleKeyEvent_keydown onKeyDown2_suppressed)
  qed
qed

text \<open>
  C3 with the dialog open and shift+slash bound to the bindings dialog: Escape on a text
  input closes the dialog, shift+slash on the body does nothing.
\<close>

theorem dialog_gate_witness:
  "keyBindingsByPrimaryKey codeModifiers
      [\<lparr>keys = ''ShiftLeft+Slash'', action = ''openBindingsDialog''\<rparr>] =
     Inr [ ''Slash'' \<mapsto>
       [\<lparr>keys = ''ShiftLeft+Slash'', action = ''openBindingsDialog'', primaryKey = ''Slash'',
          extraNonModifierKeys = {}, requireCtrl = False, requireShift = True,
          requireAlt = False, requireMeta = False\<rparr>] ]
   \<and> snd (handleKeyEvent codeModifiers
          [ ''Slash'' \<mapsto>
            [\<lparr>keys = ''ShiftLeft+Slash'', action = ''openBindingsDialog'',
               primaryKey = ''Slash'', extraNonModifierKeys = {}, requireCtrl = False,
               requireShift = True, requireAlt = False, requireMeta = False\<rparr>] ]
          \<lparr>keyBindings = [\<lparr>keys = ''ShiftLeft+Slash'', action = ''openBindingsDialog''\<rparr>],
            keyUpActions = Map.empty, getKeyboardAction = Some, exportConfirmOpen = True\<rparr>
          initialRefs
          \<lparr>code = ''Escape'', ctrlKey = False, shiftKey = False, altKey = False,
            metaKey = False, target = OtherElement ''input''\<rparr> Keydown) =
     \<lparr>calls = [CloseExportConfirm], defaultPrevented = True, propagationStopped = True\<rparr>
   \<and> snd (handleKeyEvent codeModifiers
          [ ''Slash'' \<mapsto>
            [\<lparr>keys = ''ShiftLeft+Slash'', action = ''openBindingsDialog'',
               primaryKey = ''Slash'', extraNonModifierKeys = {}, requireCtrl = False,
               requireShift = True, requireAlt = False, requireMeta = False\<rparr>] ]
          \<lparr>keyBindings = [\<lparr>keys = ''ShiftLeft+Slash'', action = ''openBindingsDialog''\<rparr>],
            keyUpActions = Map.empty, getKeyboardAction = Some, exportConfirmOpen = True\<rparr>
          initialRefs
          \<lparr>code = ''Slash'', ctrlKey = False, shiftKey = True, altKey = False,
            metaKey = False, target = DocumentBody\<rparr> Keydown) = untouched"
proof -
  let ?index = "[ ''Slash'' \<mapsto>
       [\<lparr>keys = ''ShiftLeft+Slash'', action = ''openBindingsDialog'', primaryKey = ''Slash'',
          extraNonModifierKeys = {}, requireCtrl = False, requireShift = True,
          requireAlt = False, requireMeta = False\<rparr>] ]"
  let ?props = "\<lparr>keyBindings = [\<lparr>keys = ''ShiftLeft+Slash'', action = ''openBindingsDialog''\<rparr>],
            keyUpActions = Map.empty, getKeyboardAction = Some, exportConfirmOpen = True\<rparr>
            :: string Props"
  have built: "keyBindingsByPrimaryKey codeModifiers (keyBindings ?props) = Inr ?index"
    by (simp add: keyBindingsByPrimaryKey_def addKeyBinding_def getProperty_def normalized_def
        at_last_def codeModifiers_def allModifiers_def objectPrototypeKeys_def)
  have "snd (handleKeyEvent codeModifiers ?index ?props initialRefs
          \<lparr>code = ''Escape'', ctrlKey = False, shiftKey = False, altKey = False,
            metaKey = False, target = OtherElement ''input''\<rparr> Keydown) =
     \<lparr>calls = [CloseExportConfirm], defaultPrevented = True, propagationStopped = True\<rparr>"
    using dialog_gate [where m = codeModifiers and refs = initialRefs and index = ?index
      and props = ?props
      and e = "\<lparr>code = ''Escape'', ctrlKey = False, shiftKey = False, altKey = False,
            metaKey = False, target = OtherElement ''input''\<rparr>"]
    by (simp add: codeModifiers_def allModifiers_def)
  moreover have "snd (handleKeyEvent codeModifiers ?index ?props initialRefs
          \<lparr>code = ''Slash'', ctrlKey = False, shiftKey = True, altKey = False,
            metaKey = False, target = DocumentBody\<rparr> Keydown) = untouched"
    using dialog_gate [where m = codeModifiers and refs = initialRefs and index = ?index
      and props = ?props
      and e = "\<lparr>code = ''Slash'', ctrlKey = False, shiftKey = True, altKey = False,
            metaKey = False, target = DocumentBody\<rparr>"]
    by (simp add: initialRefs_def matchingKeyBinding_def candidates_def chordHolds_iff)
  ultimately show ?thesis using built by simp
qed

text \<open>
  C4 at a key-up on a text input, no dialog open, with ArrowRight bound to an action that
  has a release handler. \<open>onKeyUp2\<close> does not look at the target: the release handler is
  called. The key-down of the same key on the same input is stopped by the check of line
  60 and calls nothing.
\<close>

theorem release_handler_runs_on_text_input:
  "keyBindingsByPrimaryKey codeModifiers [\<lparr>keys = ''ArrowRight'', action = ''seekForwards''\<rparr>] =
     Inr [ ''ArrowRight'' \<mapsto>
       [\<lparr>keys = ''ArrowRight'', action = ''seekForwards'', primaryKey = ''ArrowRight'',
          extraNonModifierKeys = {}, requireCtrl = False, requireShift = False,
          requireAlt = False, requireMeta = False\<rparr>] ]
   \<and> calls (snd (handleKeyEvent codeModifiers
        [ ''ArrowRight'' \<mapsto>
          [\<lparr>keys = ''ArrowRight'', action = ''seekForwards'', primaryKey = ''ArrowRight'',
             extraNonModifierKeys = {}, requireCtrl = False, requireShift = False,
             requireAlt = False, requireMeta = False\<rparr>] ]
        \<lparr>keyBindings = [\<lparr>keys = ''ArrowRight'', action = ''seekForwards''\<rparr>],
          keyUpActions = [''seekForwards'' \<mapsto> ''seekReset''],
          getKeyboardAction = Some, exportConfirmOpen = False\<rparr>
        initialRefs
        \<lparr>code = ''ArrowRight'', ctrlKey = False, shiftKey = False, altKey = False,
          metaKey = False, target = OtherElement ''input''\<rparr> Keyup))
     = [Handler ''seekReset'']
   \<and> snd (handleKeyEvent codeModifiers
        [ ''ArrowRight'' \<mapsto>
          [\<lparr>keys = ''ArrowRight'', action = ''seekForwards'', primaryKey = ''ArrowRight'',
             extraNonModifierKeys = {}, requireCtrl = False, requireShift = False,
             requireAlt = False, requireMeta = False\<rparr>] ]
        \<lparr>keyBindings = [\<lparr>keys = ''ArrowRight'', action = ''seekForwards''\<rparr>],
          keyUpActions = [''seekForwards'' \<mapsto> ''seekReset''],
          getKeyboardAction = Some, exportConfirmOpen = False\<rparr>
        initialRefs
        \<lparr>code = ''ArrowRight'', ctrlKey = False, shiftKey = False, altKey = False,
          metaKey = False, target = OtherElement ''input''\<rparr> Keydown)
     = untouched"
proof (intro conjI)
  show "keyBindingsByPrimaryKey codeModifiers
      [\<lparr>keys = ''ArrowRight'', action = ''seekForwards''\<rparr>] =
     Inr [ ''ArrowRight'' \<mapsto>
       [\<lparr>keys = ''ArrowRight'', action = ''seekForwards'', primaryKey = ''ArrowRight'',
          extraNonModifierKeys = {}, requireCtrl = False, requireShift = False,
          requireAlt = False, requireMeta = False\<rparr>] ]"
    by (simp add: keyBindingsByPrimaryKey_def addKeyBinding_def getProperty_def normalized_def
        at_last_def codeModifiers_def allModifiers_def objectPrototypeKeys_def)
qed (simp_all add: keyup_calls handleKeyEvent_keydown_cases codeModifiers_def allModifiers_def
    initialRefs_def matchingKeyBinding_def candidates_def chordHolds_iff triggered_def)

text \<open>
  C8 as stated fails: with the dialog open, a key-down of Escape is consumed although no
  binding matched and no action handler ran.
\<close>

theorem escape_consumed_without_match_counterexample:
  "keyBindingsByPrimaryKey codeModifiers [] = Inr Map.empty
   \<and> defaultPrevented (snd (handleKeyEvent codeModifiers Map.empty
        \<lparr>keyBindings = [], keyUpActions = Map.empty, getKeyboardAction = Some,
          exportConfirmOpen = True\<rparr>
        initialRefs
        \<lparr>code = ''Escape'', ctrlKey = False, shiftKey = False, altKey = False,
          metaKey = False, target = DocumentBody\<rparr> Keydown) :: string Outcome)
   \<and> propagationStopped (snd (handleKeyEvent codeModifiers Map.empty
        \<lparr>keyBindings = [], keyUpActions = Map.empty, getKeyboardAction = Some,
          exportConfirmOpen = True\<rparr>
        initialRefs
        \<lparr>code = ''Escape'', ctrlKey = False, shiftKey = False, altKey = False,
          metaKey = False, target = DocumentBody\<rparr> Keydown) :: string Outcome)
   \<and> matchingKeyBinding Map.empty
        (insert ''Escape'' (nonModifierKeysDownRef initialRefs))
        \<lparr>code = ''Escape'', ctrlKey = False, shiftKey = False, altKey = False,
          metaKey = False, target = DocumentBody\<rparr> = None"
  by (simp add: handleKeyEvent_keydown_cases codeModifiers_def allModifiers_def
      matchingKeyBinding_def candidates_def keyBindingsByPrimaryKey_def)
text \<open>
  C8, amended. A key-down is consumed (default prevented and propagation stopped) iff its
  code is no modifier and either the dialog is open and the code is Escape, or a binding
  matched, the gates passed and the registry gave a handler. An action handler is called
  exactly in the second case. When no binding matches and the event is not such an
  Escape, nothing is called and the event is left alone.
\<close>

theorem keydown_consumed_iff:
  assumes "out = snd (handleKeyEvent m index props refs e Keydown)"
    and "matching =
           matchingKeyBinding index
             (insert (code e) (nonModifierKeysDownRef refs)) e"
  shows
   "((defaultPrevented out \<and> propagationStopped out) \<longleftrightarrow>
       code e \<notin> allModifiers m
       \<and> ((exportConfirmOpen props \<and> code e = ''Escape'')
          \<or> (\<exists>kb h. matching = Some kb
                \<and> (exportConfirmOpen props \<longrightarrow> action kb = ''export'')
                \<and> target e = DocumentBody
                \<and> getKeyboardAction props (action kb) = Some h)))
    \<and> (defaultPrevented out \<longleftrightarrow> propagationStopped out)
    \<and> (\<forall>h. Handler h \<in> set (calls out) \<longleftrightarrow>
          code e \<notin> allModifiers m
          \<and> \<not> (exportConfirmOpen props \<and> code e = ''Escape'')
          \<and> (\<exists>kb. matching = Some kb
                \<and> (exportConfirmOpen props \<longrightarrow> action kb = ''export'')
                \<and> target e = DocumentBody
                \<and> getKeyboardAction props (action kb) = Some h))
    \<and> (matching = None \<and> \<not> (exportConfirmOpen props \<and> code e = ''Escape'')
          \<longrightarrow> out = untouched)"
proof (cases "code e \<in> allModifiers m")
  case True
  then have "out = untouched"
    using assms(1) by (simp add: handleKeyEvent_modifier)
  with True show ?thesis by (simp add: untouched_def)
next
  case False
  show ?thesis
  proof (cases "exportConfirmOpen props \<and> code e = ''Escape''")
    case True
    with False have "out = \<lparr>calls = [CloseExportConfirm], defaultPrevented = True,
                     propagationStopped = True\<rparr>"
      using assms(1) by (auto simp: handleKeyEvent_keydown_cases)
    with False True show ?thesis by simp
  next
    case esc: False
    show ?thesis
    proof (cases "triggered props e (map_option action matching)")
      case None
      with False esc have "out = untouched"
        using assms by (auto simp: handleKeyEvent_keydown_cases)
      moreover from None have "\<nexists>kb h. matching = Some kb
                \<and> (exportConfirmOpen props \<longrightarrow> action kb = ''export'')
                \<and> target e = DocumentBody
                \<and> getKeyboardAction props (action kb) = Some h"
        using triggered_Some_iff [of props e matching] by (metis option.distinct(1))
      ultimately show ?thesis using False esc by (auto simp: untouched_def)
    next
      case (Some h)
      with False esc have out: "out = \<lparr>calls = [Handler h], defaultPrevented = True,
                     propagationStopped = True\<rparr>"
        using assms by (auto simp: handleKeyEvent_keydown_cases)
      from Some obtain kb where kb: "matching = Some kb"
          "exportConfirmOpen props \<longrightarrow> action kb = ''export''"
          "target e = DocumentBody" "getKeyboardAction props (action kb) = Some h"
        using triggered_Some_iff [of props e matching h] by auto
      from out kb False esc show ?thesis by auto
    qed
  qed
qed

text \<open>
  C8, amended, with ctrl+G bound to the go-to-time action: ctrl+H is left alone, ctrl+G
  is consumed and calls the handler.
\<close>

theorem keydown_consumed_iff_witness:
  "keyBindingsByPrimaryKey codeModifiers [\<lparr>keys = ''ControlLeft+KeyG'', action = ''gotoTime''\<rparr>] =
     Inr [ ''KeyG'' \<mapsto>
       [\<lparr>keys = ''ControlLeft+KeyG'', action = ''gotoTime'', primaryKey = ''KeyG'',
          extraNonModifierKeys = {}, requireCtrl = True, requireShift = False,
          requireAlt = False, requireMeta = False\<rparr>] ]
   \<and> snd (handleKeyEvent codeModifiers
        [ ''KeyG'' \<mapsto>
          [\<lparr>keys = ''ControlLeft+KeyG'', action = ''gotoTime'', primaryKey = ''KeyG'',
             extraNonModifierKeys = {}, requireCtrl = True, requireShift = False,
             requireAlt = False, requireMeta = False\<rparr>] ]
        \<lparr>keyBindings = [\<lparr>keys = ''ControlLeft+KeyG'', action = ''gotoTime''\<rparr>],
          keyUpActions = Map.empty, getKeyboardAction = Some, exportConfirmOpen = False\<rparr>
        initialRefs
        \<lparr>code = ''KeyH'', ctrlKey = True, shiftKey = False, altKey = False,
          metaKey = False, target = DocumentBody\<rparr> Keydown) = untouched
   \<and> defaultPrevented (snd (handleKeyEvent codeModifiers
        [ ''KeyG'' \<mapsto>
          [\<lparr>keys = ''ControlLeft+KeyG'', action = ''gotoTime'', primaryKey = ''KeyG'',
             extraNonModifierKeys = {}, requireCtrl = True, requireShift = False,
             requireAlt = False, requireMeta = False\<rparr>] ]
        \<lparr>keyBindings = [\<lparr>keys = ''ControlLeft+KeyG'', action = ''gotoTime''\<rparr>],
          keyUpActions = Map.empty, getKeyboardAction = Some, exportConfirmOpen = False\<rparr>
        initialRefs
        \<lparr>code = ''KeyG'', ctrlKey = True, shiftKey = False, altKey = False,
          metaKey = False, target = DocumentBody\<rparr> Keydown))
   \<and> propagationStopped (snd (handleKeyEvent codeModifiers
        [ ''KeyG'' \<mapsto>
          [\<lparr>keys = ''ControlLeft+KeyG'', action = ''gotoTime'', primaryKey = ''KeyG'',
             extraNonModifierKeys = {}, requireCtrl = True, requireShift = False,
             requireAlt = False, requireMeta = False\<rparr>] ]
        \<lparr>keyBindings = [\<lparr>keys = ''ControlLeft+KeyG'', action = ''gotoTime''\<rparr>],
          keyUpActions = Map.empty, getKeyboardAction = Some, exportConfirmOpen = False\<rparr>
        initialRefs
        \<lparr>code = ''KeyG'', ctrlKey = True, shiftKey = False, altKey = False,
          metaKey = False, target = DocumentBody\<rparr> Keydown))
   \<and> Handler ''gotoTime'' \<in> set (calls (snd (handleKeyEvent codeModifiers
        [ ''KeyG'' \<mapsto>
          [\<lparr>keys = ''ControlLeft+KeyG'', action = ''gotoTime'', primaryKey = ''KeyG'',
             extraNonModifierKeys = {}, requireCtrl = True, requireShift = False,
             requireAlt = False, requireMeta = False\<rparr>] ]
        \<lparr>keyBindings = [\<lparr>keys = ''ControlLeft+KeyG'', action = ''gotoTime''\<rparr>],
          keyUpActions = Map.empty, getKeyboardAction = Some, exportConfirmOpen = False\<rparr>
        initialRefs
        \<lparr>code = ''KeyG'', ctrlKey = True, shiftKey = False, altKey = False,
          metaKey = False, target = DocumentBody\<rparr> Keydown)))"
proof -
  let ?props = "\<lparr>keyBindings = [\<lparr>keys = ''ControlLeft+KeyG'', action = ''gotoTime''\<rparr>],
          keyUpActions = Map.empty, getKeyboardAction = Some, exportConfirmOpen = False\<rparr>
          :: string Props"
  let ?g = "\<lparr>code = ''KeyG'', ctrlKey = True, shiftKey = False, altKey = False,
          metaKey = False, target = DocumentBody\<rparr>"
  let ?h = "\<lparr>code = ''KeyH'', ctrlKey = True, shiftKey = False, altKey = False,
          metaKey = False, target = DocumentBody\<rparr>"
  let ?index = "[ ''KeyG'' \<mapsto>
          [\<lparr>keys = ''ControlLeft+KeyG'', action = ''gotoTime'', primaryKey = ''KeyG'',
             extraNonModifierKeys = {}, requireCtrl = True, requireShift = False,
             requireAlt = False, requireMeta = False\<rparr>] ]"
  have built: "keyBindingsByPrimaryKey codeModifiers (keyBindings ?props) = Inr ?index"
    by (simp add: keyBindingsByPrimaryKey_def addKeyBinding_def getProperty_def normalized_def
        at_last_def codeModifiers_def allModifiers_def objectPrototypeKeys_def)
  have mh: "matchingKeyBinding ?index (insert (code ?h) (nonModifierKeysDownRef initialRefs)) ?h
              = None"
    by (simp add: matchingKeyBinding_def candidates_def)
  have mg: "matchingKeyBinding ?index (insert (code ?g) (nonModifierKeysDownRef initialRefs)) ?g
              = Some \<lparr>keys = ''ControlLeft+KeyG'', action = ''gotoTime'', primaryKey = ''KeyG'',
                  extraNonModifierKeys = {}, requireCtrl = True, requireShift = False,
                  requireAlt = False, requireMeta = False\<rparr>"
    by (simp add: matchingKeyBinding_def candidates_def chordHolds_iff)
  have nm: "code ?g \<notin> allModifiers codeModifiers"
    by (simp add: codeModifiers_def allModifiers_def)
  from keydown_consumed_iff [OF refl refl, where m = codeModifiers and props = ?props
      and index = ?index and refs = initialRefs and e = ?h] mh
  have 1: "snd (handleKeyEvent codeModifiers ?index ?props initialRefs ?h Keydown) = untouched"
    by simp
  from keydown_consumed_iff [OF refl refl, where m = codeModifiers and props = ?props
      and index = ?index and refs = initialRefs and e = ?g] mg nm
  have 2: "defaultPrevented (snd (handleKeyEvent codeModifiers ?index ?props initialRefs ?g Keydown))
      \<and> propagationStopped (snd (handleKeyEvent codeModifiers ?index ?props initialRefs ?g Keydown))
      \<and> Handler ''gotoTime''
          \<in> set (calls (snd (handleKeyEvent codeModifiers ?index ?props initialRefs ?g Keydown)))"
    by simp
  from built 1 2 show ?thesis by simp
qed

text \<open>
  C10. With the listeners registered on the index built from the configured list, a
  release handler is called on key-up only for the binding the key-up selects: a
  configured binding of the released key whose require flags equal the event's ctrl,
  shift, alt and meta flags at the release and whose extra keys are all still pressed.
  For a chord of a control modifier and a key, the release handler runs on the key's
  key-up iff ctrl is still held: once ctrl is released first, it does not run.
\<close>

theorem release_needs_the_chord:
  assumes built: "keyBindingsByPrimaryKey m (keyBindings props) = Inr index"
  shows
  "(Handler h \<in> set (calls (snd (handleKeyEvent m index props refs e Keyup))) \<longrightarrow>
      (\<exists>kb. matchingKeyBinding index (nonModifierKeysDownRef refs) e = Some kb
            \<and> kb \<in> set (List.map_filter (normalized m) (keyBindings props))
            \<and> primaryKey kb = code e
            \<and> requireCtrl kb = ctrlKey e \<and> requireShift kb = shiftKey e
            \<and> requireAlt kb = altKey e \<and> requireMeta kb = metaKey e
            \<and> extraNonModifierKeys kb \<subseteq> nonModifierKeysDownRef refs
            \<and> keyUpActions props (action kb) = Some h))
   \<and> (keyBindings props = [\<lparr>keys = c @ ''+'' @ a, action = x\<rparr>]
        \<and> c \<in> controlModifiers m \<and> c \<notin> shiftModifiers m \<and> c \<notin> altModifiers m
        \<and> c \<notin> metaModifiers m \<and> a \<notin> allModifiers m
        \<and> CHR ''+'' \<notin> set c \<and> CHR ''+'' \<notin> set a
        \<and> keyUpActions props x = Some r
        \<and> code e = a \<and> \<not> shiftKey e \<and> \<not> altKey e \<and> \<not> metaKey e \<longrightarrow>
        calls (snd (handleKeyEvent m index props refs e Keyup)) =
          (if ctrlKey e then [Handler r] else []))"
proof (intro conjI impI)
  assume h: "Handler h \<in> set (calls (snd (handleKeyEvent m index props refs e Keyup)))"
  let ?mk = "matchingKeyBinding index (nonModifierKeysDownRef refs) e"
  have "\<exists>kb. ?mk = Some kb \<and> keyUpActions props (action kb) = Some h"
  proof (cases ?mk)
    case None
    with h show ?thesis by (simp add: keyup_calls split: if_splits)
  next
    case (Some kb)
    with h show ?thesis
      by (cases "keyUpActions props (action kb)") (simp_all add: keyup_calls split: if_splits)
  qed
  then obtain kb where kb: "?mk = Some kb" "keyUpActions props (action kb) = Some h"
    by blast
  from matchingKeyBinding_Some [OF kb(1)]
  have "kb \<in> set (List.map_filter (normalized m) (keyBindings props))"
       "primaryKey kb = code e" "chordHolds (nonModifierKeysDownRef refs) e kb"
    by (simp_all add: candidates_index [OF built])
  with kb show "\<exists>kb. ?mk = Some kb
            \<and> kb \<in> set (List.map_filter (normalized m) (keyBindings props))
            \<and> primaryKey kb = code e
            \<and> requireCtrl kb = ctrlKey e \<and> requireShift kb = shiftKey e
            \<and> requireAlt kb = altKey e \<and> requireMeta kb = metaKey e
            \<and> extraNonModifierKeys kb \<subseteq> nonModifierKeysDownRef refs
            \<and> keyUpActions props (action kb) = Some h"
    by (simp add: chordHolds_iff)
next
  assume a: "keyBindings props = [\<lparr>keys = c @ ''+'' @ a, action = x\<rparr>]
        \<and> c \<in> controlModifiers m \<and> c \<notin> shiftModifiers m \<and> c \<notin> altModifiers m
        \<and> c \<notin> metaModifiers m \<and> a \<notin> allModifiers m
        \<and> CHR ''+'' \<notin> set c \<and> CHR ''+'' \<notin> set a
        \<and> keyUpActions props x = Some r
        \<and> code e = a \<and> \<not> shiftKey e \<and> \<not> altKey e \<and> \<not> metaKey e"
  have "matchingKeyBinding index (nonModifierKeysDownRef refs) e =
      find (\<lambda>n. primaryKey n = code e \<and> chordHolds (nonModifierKeysDownRef refs) e n)
        (List.map_filter (normalized m) [\<lparr>keys = c @ CHR ''+'' # a, action = x\<rparr>])"
    using matchingKeyBinding_index [OF built] a by simp
  with a show "calls (snd (handleKeyEvent m index props refs e Keyup)) =
          (if ctrlKey e then [Handler r] else [])"
    by (simp add: keyup_calls normalized_pair chordHolds_iff allModifiers_def)
qed

text \<open>C10 for ctrl+ArrowRight with a release handler: ctrl held, ctrl released.\<close>

theorem release_needs_the_chord_witness:
  "keyBindingsByPrimaryKey codeModifiers
      [\<lparr>keys = ''ControlLeft+ArrowRight'', action = ''seekForwards''\<rparr>] =
     Inr [ ''ArrowRight'' \<mapsto>
       [\<lparr>keys = ''ControlLeft+ArrowRight'', action = ''seekForwards'',
          primaryKey = ''ArrowRight'', extraNonModifierKeys = {}, requireCtrl = True,
          requireShift = False, requireAlt = False, requireMeta = False\<rparr>] ]
   \<and> calls (snd (handleKeyEvent codeModifiers
        [ ''ArrowRight'' \<mapsto>
          [\<lparr>keys = ''ControlLeft+ArrowRight'', action = ''seekForwards'',
             primaryKey = ''ArrowRight'', extraNonModifierKeys = {}, requireCtrl = True,
             requireShift = False, requireAlt = False, requireMeta = False\<rparr>] ]
        \<lparr>keyBindings = [\<lparr>keys = ''ControlLeft+ArrowRight'', action = ''seekForwards''\<rparr>],
          keyUpActions = [''seekForwards'' \<mapsto> ''seekReset''],
          getKeyboardAction = Some, exportConfirmOpen = False\<rparr>
        \<lparr>altActionRef = False, nonModifierKeysDownRef = {''ArrowRight''}\<rparr>
        \<lparr>code = ''ArrowRight'', ctrlKey = True, shiftKey = False, altKey = False,
          metaKey = False, target = DocumentBody\<rparr> Keyup)) = [Handler ''seekReset'']
   \<and> calls (snd (handleKeyEvent codeModifiers
        [ ''ArrowRight'' \<mapsto>
          [\<lparr>keys = ''ControlLeft+ArrowRight'', action = ''seekForwards'',
             primaryKey = ''ArrowRight'', extraNonModifierKeys = {}, requireCtrl = True,
             requireShift = False, requireAlt = False, requireMeta = False\<rparr>] ]
        \<lparr>keyBindings = [\<lparr>keys = ''ControlLeft+ArrowRight'', action = ''seekForwards''\<rparr>],
          keyUpActions = [''seekForwards'' \<mapsto> ''seekReset''],
          getKeyboardAction = Some, exportConfirmOpen = False\<rparr>
        \<lparr>altActionRef = False, nonModifierKeysDownRef = {''ArrowRight''}\<rparr>
        \<lparr>code = ''ArrowRight'', ctrlKey = False, shiftKey = False, altKey = False,
          metaKey = False, target = DocumentBody\<rparr> Keyup)) = []
   \<and> (\<exists>kb. matchingKeyBinding
          [ ''ArrowRight'' \<mapsto>
            [\<lparr>keys = ''ControlLeft+ArrowRight'', action = ''seekForwards'',
               primaryKey = ''ArrowRight'', extraNonModifierKeys = {}, requireCtrl = True,
               requireShift = False, requireAlt = False, requireMeta = False\<rparr>] ]
          {''ArrowRight''}
          \<lparr>code = ''ArrowRight'', ctrlKey = True, shiftKey = False, altKey = False,
            metaKey = False, target = DocumentBody\<rparr> = Some kb
        \<and> requireCtrl kb \<and> action kb = ''seekForwards'')"
proof -
  let ?props = "\<lparr>keyBindings = [\<lparr>keys = ''ControlLeft+ArrowRight'', action = ''seekForwards''\<rparr>],
          keyUpActions = [''seekForwards'' \<mapsto> ''seekReset''],
          getKeyboardAction = Some, exportConfirmOpen = False\<rparr> :: string Props"
  let ?index = "[ ''ArrowRight'' \<mapsto>
          [\<lparr>keys = ''ControlLeft+ArrowRight'', action = ''seekForwards'',
             primaryKey = ''ArrowRight'', extraNonModifierKeys = {}, requireCtrl = True,
             requireShift = False, requireAlt = False, requireMeta = False\<rparr>] ]"
  let ?refs = "\<lparr>altActionRef = False, nonModifierKeysDownRef = {''ArrowRight''}\<rparr>"
  let ?held = "\<lparr>code = ''ArrowRight'', ctrlKey = True, shiftKey = False, altKey = False,
          metaKey = False, target = DocumentBody\<rparr>"
  let ?released = "\<lparr>code = ''ArrowRight'', ctrlKey = False, shiftKey = False, altKey = False,
          metaKey = False, target = DocumentBody\<rparr>"
  have built: "keyBindingsByPrimaryKey codeModifiers (keyBindings ?props) = Inr ?index"
    by (simp add: keyBindingsByPrimaryKey_def addKeyBinding_def getProperty_def normalized_def
        at_last_def codeModifiers_def allModifiers_def objectPrototypeKeys_def)
  from release_needs_the_chord [OF built, where refs = ?refs
      and e = ?held and c = "''ControlLeft''" and a = "''ArrowRight''"
      and x = "''seekForwards''" and r = "''seekReset''"]
  have 1: "calls (snd (handleKeyEvent codeModifiers ?index ?props ?refs ?held Keyup))
             = [Handler ''seekReset'']"
    by (simp add: codeModifiers_def allModifiers_def)
  from release_needs_the_chord [OF built, where refs = ?refs
      and e = ?released and c = "''ControlLeft''" and a = "''ArrowRight''"
      and x = "''seekForwards''" and r = "''seekReset''"]
  have 2: "calls (snd (handleKeyEvent codeModifiers ?index ?props ?refs ?released Keyup)) = []"
    by (simp add: codeModifiers_def allModifiers_def)
  from 1 have "Handler ''seekReset''
      \<in> set (calls (snd (handleKeyEvent codeModifiers ?index ?props ?refs ?held Keyup)))"
    by simp
  with release_needs_the_chord [OF built, where refs = ?refs
      and e = ?held and h = "''seekReset''"]
  obtain kb where "matchingKeyBinding ?index (nonModifierKeysDownRef ?refs) ?held = Some kb"
      "requireCtrl kb = ctrlKey ?held" "keyUpActions ?props (action kb) = Some ''seekReset''"
    by blast
  then have 3: "\<exists>kb. matchingKeyBinding ?index {''ArrowRight''} ?held = Some kb
        \<and> requireCtrl kb \<and> action kb = ''seekForwards''"
    by (auto split: if_splits)
  from built 1 2 3 show ?thesis by simp
qed

text \<open>
  C5. On a key-up of AltLeft or AltRight: if \<open>altActionRef\<close> is set, the default is
  prevented and the flag is reset; with the Alt codes being modifier names, that is all
  the event does, and if the flag is not set the event is not consumed and no ref
  changes. A key-down leaves the flag set, or sets it exactly when the event has the alt
  flag and an action handler was called; key-up and blur never set it. So a second Alt
  key-up right after a suppressed one is not consumed.
\<close>

theorem alt_release_suppression:
  assumes "code e = ''AltLeft'' \<or> code e = ''AltRight''"
  shows
   "(altActionRef refs \<longrightarrow>
       defaultPrevented (snd (handleKeyEvent m index props refs e Keyup))
       \<and> \<not> altActionRef (fst (handleKeyEvent m index props refs e Keyup)))
    \<and> (altActionRef refs \<and> code e \<in> allModifiers m \<longrightarrow>
         handleKeyEvent m index props refs e Keyup =
           (refs\<lparr>altActionRef := False\<rparr>, untouched\<lparr>defaultPrevented := True\<rparr>))
    \<and> (\<not> altActionRef refs \<and> code e \<in> allModifiers m \<longrightarrow>
         handleKeyEvent m index props refs e Keyup = (refs, untouched))
    \<and> altActionRef (fst (handleKeyEvent m index props refs e' Keydown)) =
         (altActionRef refs
          \<or> (altKey e'
              \<and> (\<exists>h. Handler h \<in> set (calls (snd (handleKeyEvent m index props refs e' Keydown))))))
    \<and> (altActionRef (fst (handleKeyEvent m index props refs e' Keyup)) \<longrightarrow> altActionRef refs)
    \<and> altActionRef (clearPressedNonModifiers refs) = altActionRef refs
    \<and> ((code e'' = ''AltLeft'' \<or> code e'' = ''AltRight'') \<longrightarrow>
         \<not> defaultPrevented
             (snd (handleKeyEvent m index' props' (fst (handleKeyEvent m index props refs e Keyup)) e'' Keyup)))"
proof (intro conjI impI)
  assume "altActionRef refs"
  with assms show "defaultPrevented (snd (handleKeyEvent m index props refs e Keyup))"
    by (simp add: keyup_defaultPrevented)
  from assms show "\<not> altActionRef (fst (handleKeyEvent m index props refs e Keyup))"
    by (auto simp: keyup_altActionRef)
next
  assume "altActionRef refs \<and> code e \<in> allModifiers m"
  with assms show "handleKeyEvent m index props refs e Keyup =
           (refs\<lparr>altActionRef := False\<rparr>, untouched\<lparr>defaultPrevented := True\<rparr>)"
    by (simp add: handleKeyEvent_modifier)
next
  assume "\<not> altActionRef refs \<and> code e \<in> allModifiers m"
  then show "handleKeyEvent m index props refs e Keyup = (refs, untouched)"
    by (simp add: handleKeyEvent_modifier)
next
  show "altActionRef (fst (handleKeyEvent m index props refs e' Keydown)) =
         (altActionRef refs
          \<or> (altKey e'
              \<and> (\<exists>h. Handler h \<in> set (calls (snd (handleKeyEvent m index props refs e' Keydown))))))"
    by (rule keydown_altActionRef)
next
  assume "altActionRef (fst (handleKeyEvent m index props refs e' Keyup))"
  then show "altActionRef refs" by (simp add: keyup_altActionRef)
next
  show "altActionRef (clearPressedNonModifiers refs) = altActionRef refs"
    by (simp add: clearPressedNonModifiers_def)
next
  assume "code e'' = ''AltLeft'' \<or> code e'' = ''AltRight''"
  from assms show "\<not> defaultPrevented
             (snd (handleKeyEvent m index' props' (fst (handleKeyEvent m index props refs e Keyup)) e'' Keyup))"
    by (auto simp: keyup_defaultPrevented keyup_altActionRef)
qed

text \<open>
  C5 with alt+X bound: the Alt key-up with the flag set and with the flag clear, the
  key-down of alt+X setting the flag, and two Alt key-ups in a row.
\<close>

theorem alt_release_suppression_witness:
  "handleKeyEvent codeModifiers
      [ ''KeyX'' \<mapsto>
        [\<lparr>keys = ''AltLeft+KeyX'', action = ''export'', primaryKey = ''KeyX'',
           extraNonModifierKeys = {}, requireCtrl = False, requireShift = False,
           requireAlt = True, requireMeta = False\<rparr>] ]
      \<lparr>keyBindings = [\<lparr>keys = ''AltLeft+KeyX'', action = ''export''\<rparr>],
        keyUpActions = Map.empty, getKeyboardAction = Some, exportConfirmOpen = False\<rparr>
      \<lparr>altActionRef = True, nonModifierKeysDownRef = {}\<rparr>
      \<lparr>code = ''AltLeft'', ctrlKey = False, shiftKey = False, altKey = False,
        metaKey = False, target = DocumentBody\<rparr> Keyup =
     (\<lparr>altActionRef = False, nonModifierKeysDownRef = {}\<rparr>,
      \<lparr>calls = [] :: string Call list, defaultPrevented = True, propagationStopped = False\<rparr>)
   \<and> handleKeyEvent codeModifiers
      [ ''KeyX'' \<mapsto>
        [\<lparr>keys = ''AltLeft+KeyX'', action = ''export'', primaryKey = ''KeyX'',
           extraNonModifierKeys = {}, requireCtrl = False, requireShift = False,
           requireAlt = True, requireMeta = False\<rparr>] ]
      \<lparr>keyBindings = [\<lparr>keys = ''AltLeft+KeyX'', action = ''export''\<rparr>],
        keyUpActions = Map.empty, getKeyboardAction = Some, exportConfirmOpen = False\<rparr>
      \<lparr>altActionRef = False, nonModifierKeysDownRef = {}\<rparr>
      \<lparr>code = ''AltLeft'', ctrlKey = False, shiftKey = False, altKey = False,
        metaKey = False, target = DocumentBody\<rparr> Keyup =
     (\<lparr>altActionRef = False, nonModifierKeysDownRef = {}\<rparr>,
      \<lparr>calls = [] :: string Call list, defaultPrevented = False, propagationStopped = False\<rparr>)
   \<and> altActionRef (fst (handleKeyEvent codeModifiers
      [ ''KeyX'' \<mapsto>
        [\<lparr>keys = ''AltLeft+KeyX'', action = ''export'', primaryKey = ''KeyX'',
           extraNonModifierKeys = {}, requireCtrl = False, requireShift = False,
           requireAlt = True, requireMeta = False\<rparr>] ]
      \<lparr>keyBindings = [\<lparr>keys = ''AltLeft+KeyX'', action = ''export''\<rparr>],
        keyUpActions = Map.empty, getKeyboardAction = Some, exportConfirmOpen = False\<rparr>
      \<lparr>altActionRef = False, nonModifierKeysDownRef = {}\<rparr>
      \<lparr>code = ''KeyX'', ctrlKey = False, shiftKey = False, altKey = True,
        metaKey = False, target = DocumentBody\<rparr> Keydown))
   \<and> \<not> defaultPrevented (snd (handleKeyEvent codeModifiers
      [ ''KeyX'' \<mapsto>
        [\<lparr>keys = ''AltLeft+KeyX'', action = ''export'', primaryKey = ''KeyX'',
           extraNonModifierKeys = {}, requireCtrl = False, requireShift = False,
           requireAlt = True, requireMeta = False\<rparr>] ]
      \<lparr>keyBindings = [\<lparr>keys = ''AltLeft+KeyX'', action = ''export''\<rparr>],
        keyUpActions = Map.empty, getKeyboardAction = Some, exportConfirmOpen = False\<rparr>
      (fst (handleKeyEvent codeModifiers
         [ ''KeyX'' \<mapsto>
        [\<lparr>keys = ''AltLeft+KeyX'', action = ''export'', primaryKey = ''KeyX'',
           extraNonModifierKeys = {}, requireCtrl = False, requireShift = False,
           requireAlt = True, requireMeta = False\<rparr>] ]
         \<lparr>keyBindings = [\<lparr>keys = ''AltLeft+KeyX'', action = ''export''\<rparr>],
           keyUpActions = Map.empty, getKeyboardAction = Some, exportConfirmOpen = False\<rparr>
         \<lparr>altActionRef = True, nonModifierKeysDownRef = {}\<rparr>
         \<lparr>code = ''AltLeft'', ctrlKey = False, shiftKey = False, altKey = False,
           metaKey = False, target = DocumentBody\<rparr> Keyup))
      \<lparr>code = ''AltRight'', ctrlKey = False, shiftKey = False, altKey = False,
        metaKey = False, target = DocumentBody\<rparr> Keyup))"
proof -
  let ?props = "\<lparr>keyBindings = [\<lparr>keys = ''AltLeft+KeyX'', action = ''export''\<rparr>],
        keyUpActions = Map.empty, getKeyboardAction = Some, exportConfirmOpen = False\<rparr>
        :: string Props"
  let ?index = "[ ''KeyX'' \<mapsto>
        [\<lparr>keys = ''AltLeft+KeyX'', action = ''export'', primaryKey = ''KeyX'',
           extraNonModifierKeys = {}, requireCtrl = False, requireShift = False,
           requireAlt = True, requireMeta = False\<rparr>] ]"
  let ?alt = "\<lparr>code = ''AltLeft'', ctrlKey = False, shiftKey = False, altKey = False,
        metaKey = False, target = DocumentBody\<rparr>"
  let ?alt2 = "\<lparr>code = ''AltRight'', ctrlKey = False, shiftKey = False, altKey = False,
        metaKey = False, target = DocumentBody\<rparr>"
  let ?x = "\<lparr>code = ''KeyX'', ctrlKey = False, shiftKey = False, altKey = True,
        metaKey = False, target = DocumentBody\<rparr>"
  let ?fired = "\<lparr>altActionRef = True, nonModifierKeysDownRef = {}\<rparr>"
  let ?idle = "\<lparr>altActionRef = False, nonModifierKeysDownRef = {}\<rparr>"
  have a: "code ?alt = ''AltLeft'' \<or> code ?alt = ''AltRight''" by simp
  have call: "Handler ''export''
      \<in> set (calls (snd (handleKeyEvent codeModifiers ?index ?props ?idle ?x Keydown)))"
    by (simp add: handleKeyEvent_keydown_cases codeModifiers_def allModifiers_def
        matchingKeyBinding_def candidates_def chordHolds_iff triggered_def)
  from alt_release_suppression [where m = codeModifiers and index = ?index and index' = ?index
      and props = ?props and e = ?alt
      and refs = ?fired and props' = ?props and e'' = ?alt2 and e' = ?x, OF a]
  have 1: "handleKeyEvent codeModifiers ?index ?props ?fired ?alt Keyup =
             (?idle, \<lparr>calls = [], defaultPrevented = True, propagationStopped = False\<rparr>)"
    and 4: "\<not> defaultPrevented (snd (handleKeyEvent codeModifiers ?index ?props
               (fst (handleKeyEvent codeModifiers ?index ?props ?fired ?alt Keyup)) ?alt2 Keyup))"
    by (auto simp: codeModifiers_def allModifiers_def untouched_def)
  from alt_release_suppression [where m = codeModifiers and index = ?index and index' = ?index
      and props = ?props and e = ?alt
      and refs = ?idle and e' = ?x and props' = ?props and e'' = ?alt2, OF a]
  have 2: "handleKeyEvent codeModifiers ?index ?props ?idle ?alt Keyup =
             (?idle, \<lparr>calls = [], defaultPrevented = False, propagationStopped = False\<rparr>)"
    and "altActionRef (fst (handleKeyEvent codeModifiers ?index ?props ?idle ?x Keydown)) =
          (\<exists>h. Handler h
             \<in> set (calls (snd (handleKeyEvent codeModifiers ?index ?props ?idle ?x Keydown))))"
    by (auto simp: codeModifiers_def allModifiers_def untouched_def)
  with call have 3: "altActionRef (fst (handleKeyEvent codeModifiers ?index ?props ?idle ?x Keydown))"
    by blast
  from 1 2 3 4 show ?thesis by simp
qed

text \<open>
  C6. Within one event of a non-modifier code: on key-down the code is in the pressed-key
  set the binding lookup reads, and it stays in the set; on key-up the lookup and the
  release handler run against the set as it was, and the code leaves the set afterwards.
  A chord that names its own primary key as an extra key shows both: its key-down
  triggers from a set not holding the key, the key-up that follows calls the release
  handler and then removes the key, and a key-up without the key-down before calls
  nothing.
\<close>

theorem lookup_sees_the_key_and_release_comes_last:
  assumes "code e \<notin> allModifiers m"
  shows
   "handleKeyEvent m index props refs e Keydown =
      onKeyDown2 props
        (refs\<lparr>nonModifierKeysDownRef := insert (code e) (nonModifierKeysDownRef refs)\<rparr>,
         untouched)
        e
        (map_option action
           (matchingKeyBinding index
              (insert (code e) (nonModifierKeysDownRef refs)) e))
    \<and> nonModifierKeysDownRef (fst (handleKeyEvent m index props refs e Keydown)) =
        insert (code e) (nonModifierKeysDownRef refs)
    \<and> calls (snd (handleKeyEvent m index props refs e Keyup)) =
        calls (onKeyUp2 props untouched
                 (map_option action
                    (matchingKeyBinding index
                       (nonModifierKeysDownRef refs) e)))
    \<and> nonModifierKeysDownRef (fst (handleKeyEvent m index props refs e Keyup)) =
        nonModifierKeysDownRef refs - {code e}
    \<and> (keyBindingsByPrimaryKey m (keyBindings props) = Inr index
         \<and> keyBindings props = [\<lparr>keys = code e @ ''+'' @ code e, action = x\<rparr>]
         \<and> CHR ''+'' \<notin> set (code e)
         \<and> \<not> ctrlKey e \<and> \<not> shiftKey e \<and> \<not> altKey e \<and> \<not> metaKey e
         \<and> \<not> exportConfirmOpen props \<and> target e = DocumentBody
         \<and> getKeyboardAction props x = Some h \<and> keyUpActions props x = Some r
         \<and> code e \<notin> nonModifierKeysDownRef refs
       \<longrightarrow> calls (snd (handleKeyEvent m index props refs e Keydown)) = [Handler h]
           \<and> calls (snd (handleKeyEvent m index props
                           (fst (handleKeyEvent m index props refs e Keydown)) e Keyup)) = [Handler r]
           \<and> code e \<notin> nonModifierKeysDownRef
                 (fst (handleKeyEvent m index props
                         (fst (handleKeyEvent m index props refs e Keydown)) e Keyup))
           \<and> calls (snd (handleKeyEvent m index props refs e Keyup)) = [])"
proof (intro conjI impI)
  from assms show "handleKeyEvent m index props refs e Keydown =
      onKeyDown2 props
        (refs\<lparr>nonModifierKeysDownRef := insert (code e) (nonModifierKeysDownRef refs)\<rparr>,
         untouched)
        e
        (map_option action
           (matchingKeyBinding index
              (insert (code e) (nonModifierKeysDownRef refs)) e))"
    by (rule handleKeyEvent_keydown)
  from assms show "nonModifierKeysDownRef (fst (handleKeyEvent m index props refs e Keydown)) =
        insert (code e) (nonModifierKeysDownRef refs)"
    by (simp add: keydown_pressed)
  from assms show "calls (snd (handleKeyEvent m index props refs e Keyup)) =
        calls (onKeyUp2 props untouched
                 (map_option action
                    (matchingKeyBinding index
                       (nonModifierKeysDownRef refs) e)))"
    by (simp add: handleKeyEvent_keyup onKeyUp2_calls Let_def untouched_def)
  from assms show "nonModifierKeysDownRef (fst (handleKeyEvent m index props refs e Keyup)) =
        nonModifierKeysDownRef refs - {code e}"
    by (simp add: keyup_pressed)
next
  assume a: "keyBindingsByPrimaryKey m (keyBindings props) = Inr index
         \<and> keyBindings props = [\<lparr>keys = code e @ ''+'' @ code e, action = x\<rparr>]
         \<and> CHR ''+'' \<notin> set (code e)
         \<and> \<not> ctrlKey e \<and> \<not> shiftKey e \<and> \<not> altKey e \<and> \<not> metaKey e
         \<and> \<not> exportConfirmOpen props \<and> target e = DocumentBody
         \<and> getKeyboardAction props x = Some h \<and> keyUpActions props x = Some r
         \<and> code e \<notin> nonModifierKeysDownRef refs"
  have n: "normalized m \<lparr>keys = code e @ CHR ''+'' # code e, action = x\<rparr> =
      Some \<lparr>keys = code e @ CHR ''+'' # code e, action = x, primaryKey = code e,
         extraNonModifierKeys = {code e},
         requireCtrl = False, requireShift = False, requireAlt = False, requireMeta = False\<rparr>"
    using a assms normalized_pair [of "code e" "code e" m x]
    by (simp add: allModifiers_def)
  from a have built: "keyBindingsByPrimaryKey m
      [\<lparr>keys = code e @ CHR ''+'' # code e, action = x\<rparr>] = Inr index"
    by auto
  have down: "matchingKeyBinding index (insert (code e) P) e =
        Some \<lparr>keys = code e @ CHR ''+'' # code e, action = x, primaryKey = code e,
         extraNonModifierKeys = {code e},
         requireCtrl = False, requireShift = False, requireAlt = False, requireMeta = False\<rparr>"
    for P
    using a by (simp add: matchingKeyBinding_index [OF built] n chordHolds_iff)
  have up: "matchingKeyBinding index (nonModifierKeysDownRef refs) e = None"
    using a by (simp add: matchingKeyBinding_index [OF built] n chordHolds_iff)
  from a assms show "calls (snd (handleKeyEvent m index props refs e Keydown)) = [Handler h]"
    by (simp add: handleKeyEvent_keydown_cases down triggered_def)
  from a assms show "calls (snd (handleKeyEvent m index props
                           (fst (handleKeyEvent m index props refs e Keydown)) e Keyup)) = [Handler r]"
    by (simp add: keyup_calls keydown_pressed down)
  from assms show "code e \<notin> nonModifierKeysDownRef
                 (fst (handleKeyEvent m index props
                         (fst (handleKeyEvent m index props refs e Keydown)) e Keyup))"
    by (simp add: keyup_pressed)
  from a assms show "calls (snd (handleKeyEvent m index props refs e Keyup)) = []"
    by (simp add: keyup_calls up)
qed

text \<open>C6 for the chord KeyA+KeyA, from the initial refs.\<close>

theorem lookup_sees_the_key_and_release_comes_last_witness:
  "calls (snd (handleKeyEvent codeModifiers
        [ ''KeyA'' \<mapsto>
          [\<lparr>keys = ''KeyA+KeyA'', action = ''seekForwards'', primaryKey = ''KeyA'',
             extraNonModifierKeys = {''KeyA''}, requireCtrl = False, requireShift = False,
             requireAlt = False, requireMeta = False\<rparr>] ]
        \<lparr>keyBindings = [\<lparr>keys = ''KeyA+KeyA'', action = ''seekForwards''\<rparr>],
          keyUpActions = [''seekForwards'' \<mapsto> ''seekReset''],
          getKeyboardAction = Some, exportConfirmOpen = False\<rparr>
        initialRefs
        \<lparr>code = ''KeyA'', ctrlKey = False, shiftKey = False, altKey = False,
          metaKey = False, target = DocumentBody\<rparr> Keydown)) = [Handler ''seekForwards'']
   \<and> nonModifierKeysDownRef (fst (handleKeyEvent codeModifiers
        [ ''KeyA'' \<mapsto>
          [\<lparr>keys = ''KeyA+KeyA'', action = ''seekForwards'', primaryKey = ''KeyA'',
             extraNonModifierKeys = {''KeyA''}, requireCtrl = False, requireShift = False,
             requireAlt = False, requireMeta = False\<rparr>] ]
        \<lparr>keyBindings = [\<lparr>keys = ''KeyA+KeyA'', action = ''seekForwards''\<rparr>],
          keyUpActions = [''seekForwards'' \<mapsto> ''seekReset''],
          getKeyboardAction = Some, exportConfirmOpen = False\<rparr>
        initialRefs
        \<lparr>code = ''KeyA'', ctrlKey = False, shiftKey = False, altKey = False,
          metaKey = False, target = DocumentBody\<rparr> Keydown)) = {''KeyA''}
   \<and> calls (snd (handleKeyEvent codeModifiers
        [ ''KeyA'' \<mapsto>
          [\<lparr>keys = ''KeyA+KeyA'', action = ''seekForwards'', primaryKey = ''KeyA'',
             extraNonModifierKeys = {''KeyA''}, requireCtrl = False, requireShift = False,
             requireAlt = False, requireMeta = False\<rparr>] ]
        \<lparr>keyBindings = [\<lparr>keys = ''KeyA+KeyA'', action = ''seekForwards''\<rparr>],
          keyUpActions = [''seekForwards'' \<mapsto> ''seekReset''],
          getKeyboardAction = Some, exportConfirmOpen = False\<rparr>
        \<lparr>altActionRef = False, nonModifierKeysDownRef = {''KeyA''}\<rparr>
        \<lparr>code = ''KeyA'', ctrlKey = False, shiftKey = False, altKey = False,
          metaKey = False, target = DocumentBody\<rparr> Keyup)) = [Handler ''seekReset'']
   \<and> nonModifierKeysDownRef (fst (handleKeyEvent codeModifiers
        [ ''KeyA'' \<mapsto>
          [\<lparr>keys = ''KeyA+KeyA'', action = ''seekForwards'', primaryKey = ''KeyA'',
             extraNonModifierKeys = {''KeyA''}, requireCtrl = False, requireShift = False,
             requireAlt = False, requireMeta = False\<rparr>] ]
        \<lparr>keyBindings = [\<lparr>keys = ''KeyA+KeyA'', action = ''seekForwards''\<rparr>],
          keyUpActions = [''seekForwards'' \<mapsto> ''seekReset''],
          getKeyboardAction = Some, exportConfirmOpen = False\<rparr>
        \<lparr>altActionRef = False, nonModifierKeysDownRef = {''KeyA''}\<rparr>
        \<lparr>code = ''KeyA'', ctrlKey = False, shiftKey = False, altKey = False,
          metaKey = False, target = DocumentBody\<rparr> Keyup)) = {}"
proof -
  let ?props = "\<lparr>keyBindings = [\<lparr>keys = ''KeyA+KeyA'', action = ''seekForwards''\<rparr>],
          keyUpActions = [''seekForwards'' \<mapsto> ''seekReset''],
          getKeyboardAction = Some, exportConfirmOpen = False\<rparr> :: string Props"
  let ?index = "[ ''KeyA'' \<mapsto>
          [\<lparr>keys = ''KeyA+KeyA'', action = ''seekForwards'', primaryKey = ''KeyA'',
             extraNonModifierKeys = {''KeyA''}, requireCtrl = False, requireShift = False,
             requireAlt = False, requireMeta = False\<rparr>] ]"
  let ?e = "\<lparr>code = ''KeyA'', ctrlKey = False, shiftKey = False, altKey = False,
          metaKey = False, target = DocumentBody\<rparr>"
  have nm: "code ?e \<notin> allModifiers codeModifiers"
    by (simp add: codeModifiers_def allModifiers_def)
  note inst = lookup_sees_the_key_and_release_comes_last [OF nm, where props = ?props
      and index = ?index and refs = initialRefs and x = "''seekForwards''" and h = "''seekForwards''"
      and r = "''seekReset''"]
  have built: "keyBindingsByPrimaryKey codeModifiers (keyBindings ?props) = Inr ?index"
    by (simp add: keyBindingsByPrimaryKey_def addKeyBinding_def getProperty_def normalized_def
        at_last_def codeModifiers_def allModifiers_def objectPrototypeKeys_def)
  have down: "handleKeyEvent codeModifiers ?index ?props initialRefs ?e Keydown =
      (\<lparr>altActionRef = False, nonModifierKeysDownRef = {''KeyA''}\<rparr>,
       \<lparr>calls = [Handler ''seekForwards''], defaultPrevented = True,
         propagationStopped = True\<rparr>)"
    by (simp add: handleKeyEvent_keydown_cases codeModifiers_def allModifiers_def
        initialRefs_def matchingKeyBinding_def candidates_def chordHolds_iff triggered_def)
  note chord = inst [THEN conjunct2, THEN conjunct2, THEN conjunct2, THEN conjunct2, THEN mp]
  from inst [THEN conjunct2, THEN conjunct1] have 2:
    "nonModifierKeysDownRef (fst (handleKeyEvent codeModifiers ?index ?props initialRefs ?e Keydown))
        = {''KeyA''}"
    by (simp add: initialRefs_def)
  from chord have 1: "calls (snd (handleKeyEvent codeModifiers ?index ?props initialRefs ?e Keydown))
        = [Handler ''seekForwards'']"
    and 3: "calls (snd (handleKeyEvent codeModifiers ?index ?props
              (fst (handleKeyEvent codeModifiers ?index ?props initialRefs ?e Keydown)) ?e Keyup))
        = [Handler ''seekReset'']"
    using built by (auto simp: initialRefs_def)
  have 5: "nonModifierKeysDownRef (fst (handleKeyEvent codeModifiers ?index ?props
              (fst (handleKeyEvent codeModifiers ?index ?props initialRefs ?e Keydown)) ?e Keyup)) = {}"
    unfolding down by (simp add: keyup_pressed codeModifiers_def allModifiers_def)
  from 1 2 3 5 show ?thesis by (simp add: down)
qed

text \<open>
  C7. After any sequence of key-down, key-up and blur events from the initial refs, a code
  is in the pressed-key set iff it is no modifier and the last event that is a blur or a
  key event for that code is a key-down. No event adds a modifier code. A blur empties
  the set. So a chord \<open>b\<close>+\<open>a\<close> that a press of \<open>a\<close> selects while \<open>b\<close> is down is not selected by
  the same press after a blur, with no key-up of \<open>b\<close> in between, and no handler runs.
\<close>

theorem pressed_key_set_invariant:
  "(c \<in> nonModifierKeysDownRef (run m initialRefs pes) \<longleftrightarrow>
      c \<notin> allModifiers m \<and> lastWasDown c (map snd pes))
   \<and> (nonModifierKeysDownRef (deliver m refs pe) - nonModifierKeysDownRef refs)
        \<inter> allModifiers m = {}
   \<and> nonModifierKeysDownRef (run m initialRefs pes) \<inter> allModifiers m = {}
   \<and> nonModifierKeysDownRef (run m refs (pes @ [((index, props), WindowBlur)])) = {}
   \<and> (keyBindingsByPrimaryKey m (keyBindings props) = Inr index
        \<and> keyBindings props = [\<lparr>keys = b @ ''+'' @ a, action = x\<rparr>]
        \<and> a \<noteq> b \<and> a \<notin> allModifiers m \<and> b \<notin> allModifiers m
        \<and> CHR ''+'' \<notin> set a \<and> CHR ''+'' \<notin> set b
        \<and> code e = a \<and> \<not> ctrlKey e \<and> \<not> shiftKey e \<and> \<not> altKey e \<and> \<not> metaKey e
        \<and> b \<in> nonModifierKeysDownRef refs
      \<longrightarrow> map_option action
            (matchingKeyBinding index
               (insert (code e) (nonModifierKeysDownRef refs)) e) = Some x
          \<and> matchingKeyBinding index
               (insert (code e)
                  (nonModifierKeysDownRef (run m refs [((index, props), WindowBlur)]))) e
              = None
          \<and> Handler h
              \<notin> set (calls (snd (handleKeyEvent m index props
                                     (run m refs [((index, props), WindowBlur)]) e Keydown))))"
proof (intro conjI impI)
  show "c \<in> nonModifierKeysDownRef (run m initialRefs pes) \<longleftrightarrow>
      c \<notin> allModifiers m \<and> lastWasDown c (map snd pes)"
    by (rule pressed_run)
  show "(nonModifierKeysDownRef (deliver m refs pe) - nonModifierKeysDownRef refs)
        \<inter> allModifiers m = {}"
    by (rule deliver_adds_no_modifier)
  show "nonModifierKeysDownRef (run m initialRefs pes) \<inter> allModifiers m = {}"
    using pressed_run [of _ m pes] by blast
  show "nonModifierKeysDownRef (run m refs (pes @ [((index, props), WindowBlur)])) = {}"
    by (rule run_blur_last)
next
  assume a: "keyBindingsByPrimaryKey m (keyBindings props) = Inr index
        \<and> keyBindings props = [\<lparr>keys = b @ ''+'' @ a, action = x\<rparr>]
        \<and> a \<noteq> b \<and> a \<notin> allModifiers m \<and> b \<notin> allModifiers m
        \<and> CHR ''+'' \<notin> set a \<and> CHR ''+'' \<notin> set b
        \<and> code e = a \<and> \<not> ctrlKey e \<and> \<not> shiftKey e \<and> \<not> altKey e \<and> \<not> metaKey e
        \<and> b \<in> nonModifierKeysDownRef refs"
  have n: "normalized m \<lparr>keys = b @ CHR ''+'' # a, action = x\<rparr> =
      Some \<lparr>keys = b @ CHR ''+'' # a, action = x, primaryKey = a,
         extraNonModifierKeys = {b},
         requireCtrl = False, requireShift = False, requireAlt = False, requireMeta = False\<rparr>"
    using a normalized_pair [of b a m x] by (simp add: allModifiers_def)
  from a have built: "keyBindingsByPrimaryKey m
      [\<lparr>keys = b @ CHR ''+'' # a, action = x\<rparr>] = Inr index"
    by auto
  from a show "map_option action
            (matchingKeyBinding index
               (insert (code e) (nonModifierKeysDownRef refs)) e) = Some x"
    by (simp add: matchingKeyBinding_index [OF built] n chordHolds_iff)
  from a show none: "matchingKeyBinding index
               (insert (code e)
                  (nonModifierKeysDownRef (run m refs [((index, props), WindowBlur)]))) e
              = None"
    using run_blur_last [of m refs "[]" "(index, props)"]
    by (auto simp: matchingKeyBinding_index [OF built] n chordHolds_iff)
  then show "Handler h
              \<notin> set (calls (snd (handleKeyEvent m index props
                                     (run m refs [((index, props), WindowBlur)]) e Keydown)))"
    by (rule keydown_without_match)
qed

text \<open>
  C7 for the sequence B down, A down, A up, and for the chord KeyB+KeyA before and after
  a blur.
\<close>

theorem pressed_key_set_invariant_witness:
  "keyBindingsByPrimaryKey codeModifiers [\<lparr>keys = ''KeyB+KeyA'', action = ''export''\<rparr>] =
     Inr [ ''KeyA'' \<mapsto>
       [\<lparr>keys = ''KeyB+KeyA'', action = ''export'', primaryKey = ''KeyA'',
          extraNonModifierKeys = {''KeyB''}, requireCtrl = False, requireShift = False,
          requireAlt = False, requireMeta = False\<rparr>] ]
   \<and> ''KeyB'' \<in> nonModifierKeysDownRef (run codeModifiers initialRefs
       [(([ ''KeyA'' \<mapsto>
             [\<lparr>keys = ''KeyB+KeyA'', action = ''export'', primaryKey = ''KeyA'',
                extraNonModifierKeys = {''KeyB''}, requireCtrl = False,
                requireShift = False, requireAlt = False, requireMeta = False\<rparr>] ],
          \<lparr>keyBindings = [\<lparr>keys = ''KeyB+KeyA'', action = ''export''\<rparr>],
            keyUpActions = Map.empty, getKeyboardAction = Some, exportConfirmOpen = False\<rparr>),
         Key Keydown \<lparr>code = ''KeyB'', ctrlKey = False, shiftKey = False, altKey = False,
           metaKey = False, target = DocumentBody\<rparr>),
        (([ ''KeyA'' \<mapsto>
             [\<lparr>keys = ''KeyB+KeyA'', action = ''export'', primaryKey = ''KeyA'',
                extraNonModifierKeys = {''KeyB''}, requireCtrl = False,
                requireShift = False, requireAlt = False, requireMeta = False\<rparr>] ],
          \<lparr>keyBindings = [\<lparr>keys = ''KeyB+KeyA'', action = ''export''\<rparr>],
            keyUpActions = Map.empty, getKeyboardAction = Some, exportConfirmOpen = False\<rparr>),
         Key Keydown \<lparr>code = ''KeyA'', ctrlKey = False, shiftKey = False, altKey = False,
           metaKey = False, target = DocumentBody\<rparr>),
        (([ ''KeyA'' \<mapsto>
             [\<lparr>keys = ''KeyB+KeyA'', action = ''export'', primaryKey = ''KeyA'',
                extraNonModifierKeys = {''KeyB''}, requireCtrl = False,
                requireShift = False, requireAlt = False, requireMeta = False\<rparr>] ],
          \<lparr>keyBindings = [\<lparr>keys = ''KeyB+KeyA'', action = ''export''\<rparr>],
            keyUpActions = Map.empty, getKeyboardAction = Some, exportConfirmOpen = False\<rparr>),
         Key Keyup \<lparr>code = ''KeyA'', ctrlKey = False, shiftKey = False, altKey = False,
           metaKey = False, target = DocumentBody\<rparr>)])
   \<and> ''KeyA'' \<notin> nonModifierKeysDownRef (run codeModifiers initialRefs
       [(([ ''KeyA'' \<mapsto>
             [\<lparr>keys = ''KeyB+KeyA'', action = ''export'', primaryKey = ''KeyA'',
                extraNonModifierKeys = {''KeyB''}, requireCtrl = False,
                requireShift = False, requireAlt = False, requireMeta = False\<rparr>] ],
          \<lparr>keyBindings = [\<lparr>keys = ''KeyB+KeyA'', action = ''export''\<rparr>],
            keyUpActions = Map.empty, getKeyboardAction = Some, exportConfirmOpen = False\<rparr>),
         Key Keydown \<lparr>code = ''KeyB'', ctrlKey = False, shiftKey = False, altKey = False,
           metaKey = False, target = DocumentBody\<rparr>),
        (([ ''KeyA'' \<mapsto>
             [\<lparr>keys = ''KeyB+KeyA'', action = ''export'', primaryKey = ''KeyA'',
                extraNonModifierKeys = {''KeyB''}, requireCtrl = False,
                requireShift = False, requireAlt = False, requireMeta = False\<rparr>] ],
          \<lparr>keyBindings = [\<lparr>keys = ''KeyB+KeyA'', action = ''export''\<rparr>],
            keyUpActions = Map.empty, getKeyboardAction = Some, exportConfirmOpen = False\<rparr>),
         Key Keydown \<lparr>code = ''KeyA'', ctrlKey = False, shiftKey = False, altKey = False,
           metaKey = False, target = DocumentBody\<rparr>),
        (([ ''KeyA'' \<mapsto>
             [\<lparr>keys = ''KeyB+KeyA'', action = ''export'', primaryKey = ''KeyA'',
                extraNonModifierKeys = {''KeyB''}, requireCtrl = False,
                requireShift = False, requireAlt = False, requireMeta = False\<rparr>] ],
          \<lparr>keyBindings = [\<lparr>keys = ''KeyB+KeyA'', action = ''export''\<rparr>],
            keyUpActions = Map.empty, getKeyboardAction = Some, exportConfirmOpen = False\<rparr>),
         Key Keyup \<lparr>code = ''KeyA'', ctrlKey = False, shiftKey = False, altKey = False,
           metaKey = False, target = DocumentBody\<rparr>)])
   \<and> map_option action
        (matchingKeyBinding
           [ ''KeyA'' \<mapsto>
             [\<lparr>keys = ''KeyB+KeyA'', action = ''export'', primaryKey = ''KeyA'',
                extraNonModifierKeys = {''KeyB''}, requireCtrl = False,
                requireShift = False, requireAlt = False, requireMeta = False\<rparr>] ]
           (insert ''KeyA'' {''KeyB''})
           \<lparr>code = ''KeyA'', ctrlKey = False, shiftKey = False, altKey = False,
             metaKey = False, target = DocumentBody\<rparr>) = Some ''export''
   \<and> matchingKeyBinding
        [ ''KeyA'' \<mapsto>
          [\<lparr>keys = ''KeyB+KeyA'', action = ''export'', primaryKey = ''KeyA'',
             extraNonModifierKeys = {''KeyB''}, requireCtrl = False,
             requireShift = False, requireAlt = False, requireMeta = False\<rparr>] ]
        (insert ''KeyA''
           (nonModifierKeysDownRef
              (run codeModifiers \<lparr>altActionRef = False, nonModifierKeysDownRef = {''KeyB''}\<rparr>
                 [(([ ''KeyA'' \<mapsto>
                       [\<lparr>keys = ''KeyB+KeyA'', action = ''export'', primaryKey = ''KeyA'',
                          extraNonModifierKeys = {''KeyB''}, requireCtrl = False,
                          requireShift = False, requireAlt = False,
                          requireMeta = False\<rparr>] ],
                    \<lparr>keyBindings = [\<lparr>keys = ''KeyB+KeyA'', action = ''export''\<rparr>],
                      keyUpActions = Map.empty, getKeyboardAction = Some,
                      exportConfirmOpen = False\<rparr> :: string Props), WindowBlur)])))
        \<lparr>code = ''KeyA'', ctrlKey = False, shiftKey = False, altKey = False,
          metaKey = False, target = DocumentBody\<rparr> = None"
proof -
  let ?props = "\<lparr>keyBindings = [\<lparr>keys = ''KeyB+KeyA'', action = ''export''\<rparr>],
           keyUpActions = Map.empty, getKeyboardAction = Some, exportConfirmOpen = False\<rparr>
           :: string Props"
  let ?index = "[ ''KeyA'' \<mapsto>
       [\<lparr>keys = ''KeyB+KeyA'', action = ''export'', primaryKey = ''KeyA'',
          extraNonModifierKeys = {''KeyB''}, requireCtrl = False, requireShift = False,
          requireAlt = False, requireMeta = False\<rparr>] ]"
  let ?a = "\<lparr>code = ''KeyA'', ctrlKey = False, shiftKey = False, altKey = False,
           metaKey = False, target = DocumentBody\<rparr>"
  let ?b = "\<lparr>code = ''KeyB'', ctrlKey = False, shiftKey = False, altKey = False,
           metaKey = False, target = DocumentBody\<rparr>"
  let ?pes = "[((?index, ?props), Key Keydown ?b), ((?index, ?props), Key Keydown ?a),
              ((?index, ?props), Key Keyup ?a)]"
  let ?held = "\<lparr>altActionRef = False, nonModifierKeysDownRef = {''KeyB''}\<rparr>"
  have built: "keyBindingsByPrimaryKey codeModifiers (keyBindings ?props) = Inr ?index"
    by (simp add: keyBindingsByPrimaryKey_def addKeyBinding_def getProperty_def normalized_def
        at_last_def codeModifiers_def allModifiers_def objectPrototypeKeys_def)
  from pressed_key_set_invariant [where m = codeModifiers and pes = ?pes
      and c = "''KeyB''", THEN conjunct1]
  have 1: "''KeyB'' \<in> nonModifierKeysDownRef (run codeModifiers initialRefs ?pes)"
    by (simp add: codeModifiers_def allModifiers_def lastWasDown_def concerns_def isKeydown_def)
  from pressed_key_set_invariant [where m = codeModifiers and pes = ?pes
      and c = "''KeyA''", THEN conjunct1]
  have 2: "''KeyA'' \<notin> nonModifierKeysDownRef (run codeModifiers initialRefs ?pes)"
    by (simp add: codeModifiers_def allModifiers_def lastWasDown_def concerns_def isKeydown_def)
  note blur = pressed_key_set_invariant [where m = codeModifiers and props = ?props
      and index = ?index and refs = ?held and e = ?a and a = "''KeyA''" and b = "''KeyB''"
      and x = "''export''",
      THEN conjunct2, THEN conjunct2, THEN conjunct2, THEN conjunct2, THEN mp]
  have hyp: "keyBindingsByPrimaryKey codeModifiers (keyBindings ?props) = Inr ?index
        \<and> keyBindings ?props = [\<lparr>keys = ''KeyB'' @ ''+'' @ ''KeyA'', action = ''export''\<rparr>]
        \<and> ''KeyA'' \<noteq> ''KeyB'' \<and> ''KeyA'' \<notin> allModifiers codeModifiers
        \<and> ''KeyB'' \<notin> allModifiers codeModifiers
        \<and> CHR ''+'' \<notin> set ''KeyA'' \<and> CHR ''+'' \<notin> set ''KeyB''
        \<and> code ?a = ''KeyA'' \<and> \<not> ctrlKey ?a \<and> \<not> shiftKey ?a \<and> \<not> altKey ?a \<and> \<not> metaKey ?a
        \<and> ''KeyB'' \<in> nonModifierKeysDownRef ?held"
    using built by (simp add: codeModifiers_def allModifiers_def)
  from blur [OF hyp]
  have 3: "map_option action
        (matchingKeyBinding ?index (insert (code ?a) (nonModifierKeysDownRef ?held)) ?a)
          = Some ''export''"
    and 4: "matchingKeyBinding ?index
           (insert (code ?a)
              (nonModifierKeysDownRef (run codeModifiers ?held [((?index, ?props), WindowBlur)])))
           ?a = None"
    by blast+
  from built 1 2 3 4 show ?thesis by simp
qed

end
